(* ===== verification/Prelude.thy ===== *)
theory Prelude
  imports Complex_Main
begin

text \<open>
  Shared vocabulary of the ski-jump development: the numeric types of the model, the
  \<open>named_theorems\<close> collections that the witnesses use to evaluate a model at a concrete
  input, and the library function \<open>numpy.linspace\<close> (which \<^verbatim>\<open>src/sky.py\<close>
  calls three times) with the lemmas on its length, elements, order and range that the
  components share. Python floats are modelled as \<^typ>\<open>real\<close>: rounding is not
  modelled, and neither are the non-finite values \<open>inf\<close> and \<open>nan\<close>.
\<close>

named_theorems sky_defs "definitions of the model, unfolded to evaluate it at a concrete input"

type_synonym punto = "real \<times> real"

subsection \<open>numpy.linspace\<close>

text \<open>
  \<open>np.linspace(start, stop, num)\<close> computes \<open>arange(0, num) * step + start\<close> with
  \<open>step = (stop - start) / (num - 1)\<close> and then overwrites the last element with
  \<open>stop\<close> when \<open>num > 1\<close> (endpoint=True). For \<open>num = 1\<close> it is \<open>[start]\<close>.
\<close>

definition linspace :: "real \<Rightarrow> real \<Rightarrow> nat \<Rightarrow> real list" where
  "linspace start stop num =
     map (\<lambda>i. if 1 < num \<and> i = num - 1 then stop
              else start + real i * ((stop - start) / real (num - 1)))
         [0..<num]"

declare linspace_def [sky_defs]

lemma length_linspace [simp]: "length (linspace a b n) = n"
  by (simp add: linspace_def)

lemma linspace_nth:
  assumes "i < n"
  shows "linspace a b n ! i = a + real i * ((b - a) / real (n - 1))"
proof (cases "1 < n \<and> i = n - 1")
  case True
  then have "real i * ((b - a) / real (n - 1)) = b - a"
    by (simp add: of_nat_diff)
  with True assms show ?thesis by (simp add: linspace_def)
next
  case False
  with assms show ?thesis by (simp add: linspace_def)
qed

lemma linspace_nth_0 [simp]: "0 < n \<Longrightarrow> linspace a b n ! 0 = a"
  by (simp add: linspace_nth)

lemma linspace_nth_last [simp]: "1 < n \<Longrightarrow> linspace a b n ! (n - Suc 0) = b"
  by (simp add: linspace_def)

lemma linspace_last [simp]: "1 < n \<Longrightarrow> last (linspace a b n) = b"
proof -
  assume n: "1 < n"
  then have "linspace a b n \<noteq> []" by (metis length_linspace list.size(3) not_one_less_zero)
  then have "last (linspace a b n) = linspace a b n ! (length (linspace a b n) - 1)"
    by (rule last_conv_nth)
  with n show ?thesis by (simp add: linspace_def)
qed

lemma linspace_nonempty [simp]: "0 < n \<Longrightarrow> linspace a b n \<noteq> []"
  by (metis length_linspace list.size(3) less_irrefl)

text \<open>An element of index \<open>i\<close> is the start plus the fraction \<open>i / (n - 1)\<close> of the range.\<close>

lemma linspace_nth_frac:
  assumes "i < n" and "1 < n"
  shows "linspace a b n ! i = a + (b - a) * (real i / real (n - 1))"
  using assms by (simp add: linspace_nth)

lemma linspace_nth_bounds:
  assumes "i < n" and "a \<le> b"
  shows "a \<le> linspace a b n ! i \<and> linspace a b n ! i \<le> b"
proof (cases "1 < n")
  case True
  have frac: "0 \<le> real i / real (n - 1)" "real i / real (n - 1) \<le> 1"
    using assms True by (auto simp: divide_le_eq_1)
  have "0 \<le> (b - a) * (real i / real (n - 1))"
    using assms(2) frac(1) by simp
  moreover have "(b - a) * (real i / real (n - 1)) \<le> (b - a) * 1"
    using assms(2) frac(2) by (intro mult_left_mono) auto
  ultimately show ?thesis
    using assms True by (simp add: linspace_nth_frac)
next
  case False
  with assms show ?thesis by (simp add: linspace_nth)
qed

lemma linspace_nth_strict:
  assumes "0 < i" and "i < n - 1" and "a < b"
  shows "a < linspace a b n ! i \<and> linspace a b n ! i < b"
proof -
  have n: "1 < n" and i: "i < n" using assms by auto
  have frac: "0 < real i / real (n - 1)" "real i / real (n - 1) < 1"
    using assms n by (auto simp: divide_less_eq_1 of_nat_diff)
  have "0 < (b - a) * (real i / real (n - 1))"
    using assms(3) frac(1) by (intro mult_pos_pos) auto
  moreover have "(b - a) * (real i / real (n - 1)) < (b - a) * 1"
    using assms(3) frac(2) by (intro mult_strict_left_mono) auto
  ultimately show ?thesis
    using i n by (simp add: linspace_nth_frac)
qed

lemma linspace_mono:
  assumes "i \<le> j" and "j < n" and "a \<le> b"
  shows "linspace a b n ! i \<le> linspace a b n ! j"
proof -
  have "real i * ((b - a) / real (n - 1)) \<le> real j * ((b - a) / real (n - 1))"
    using assms by (intro mult_right_mono) auto
  with assms show ?thesis by (simp add: linspace_nth)
qed

lemma sorted_linspace: "a \<le> b \<Longrightarrow> sorted (linspace a b n)"
  by (simp add: sorted_iff_nth_mono linspace_mono)

lemma set_linspace_bounds: "a \<le> b \<Longrightarrow> t \<in> set (linspace a b n) \<Longrightarrow> a \<le> t \<and> t \<le> b"
  by (auto simp: in_set_conv_nth dest: linspace_nth_bounds)

subsection \<open>Running maximum\<close>

text \<open>
  A loop that keeps the largest value seen so far is \<open>fold max\<close> over the values from
  its start value; these lemmas say what it returns and how it scales.
\<close>

lemma fold_max_ge_start: "x \<le> fold max xs (x :: 'a :: linorder)"
  by (induction xs arbitrary: x) (auto intro: order.trans [OF max.cobounded2])

lemma fold_max_ge_elem: "y \<in> set xs \<Longrightarrow> y \<le> fold max xs (x :: 'a :: linorder)"
  by (induction xs arbitrary: x) (auto intro: order.trans [OF max.cobounded1] fold_max_ge_start)

lemma fold_max_Max: "fold max xs (x :: 'a :: linorder) = Max (insert x (set xs))"
  by (metis Max.set_eq_fold list.simps(15))

lemma fold_max_mem: "fold max xs (x :: 'a :: linorder) \<in> insert x (set xs)"
  unfolding fold_max_Max by (rule Max_in) auto

text \<open>A running maximum grows when its start grows and every value it sees is dominated.\<close>

lemma fold_max_mono:
  assumes "a \<le> b" and "\<And>x. x \<in> set xs \<Longrightarrow> \<exists>y\<in>set ys. x \<le> y"
  shows "fold max xs a \<le> fold max ys (b :: 'a :: linorder)"
proof -
  have M: "y \<le> Max (insert b (set ys))" if "y \<in> insert b (set ys)" for y
    using that by simp
  have "x \<le> Max (insert b (set ys))" if x: "x \<in> insert a (set xs)" for x
  proof (cases "x = a")
    case True
    have "b \<le> Max (insert b (set ys))" by (rule M) simp
    with assms(1) have "a \<le> Max (insert b (set ys))" by (rule order_trans)
    with True show ?thesis by simp
  next
    case False
    then have "x \<in> set xs" using x by simp
    then obtain y where y: "y \<in> set ys" "x \<le> y" using assms(2) by blast
    have "y \<le> Max (insert b (set ys))" by (rule M) (simp add: y(1))
    with y(2) show ?thesis by (rule order_trans)
  qed
  then show ?thesis unfolding fold_max_Max by (intro Max.boundedI) auto
qed

lemma fold_max_scale:
  "0 \<le> c \<Longrightarrow> fold max (map (\<lambda>y. c * y) xs) (c * x) = c * fold max xs (x :: real)"
proof (induction xs arbitrary: x)
  case Nil
  then show ?case by simp
next
  case (Cons a xs)
  have "max (c * a) (c * x) = c * max a x"
    using max_mult_distrib_left [of c a x] Cons.prems by simp
  then show ?case using Cons.IH [OF Cons.prems, of "max a x"] by simp
qed

subsection \<open>Sine plus cosine\<close>

text \<open>
  The landing distance on a ramp of slope -1 is proportional to \<open>1 + sin x + cos x\<close>
  with \<open>x\<close> twice the launch angle, so the best angle is where \<open>sin x + cos x\<close> is
  largest: \<open>sqrt 2\<close>, reached only where \<open>sin x = cos x\<close>.
\<close>

lemma sin_mas_cos_45: "sin (pi / 4) + cos (pi / 4) = sqrt 2"
  by (simp add: sin_45 cos_45)

lemma sin_mas_cos_menor:
  assumes "sin x \<noteq> cos x"
  shows "sin x + cos x < sqrt 2"
proof -
  have sum: "(sin x + cos x)\<^sup>2 + (sin x - cos x)\<^sup>2 = 2"
    using sin_cos_squared_add [of x] by (simp add: power2_eq_square algebra_simps)
  have "0 < (sin x - cos x)\<^sup>2" using assms by simp
  with sum have "(sin x + cos x)\<^sup>2 < 2" by linarith
  then show ?thesis by (rule real_less_rsqrt)
qed

lemma sin_mas_cos_desplazado: "sin x + cos x = sqrt 2 * sin (x + pi / 4)"
  by (simp add: sin_add sin_45 cos_45 algebra_simps)

lemma sin_igual_cos:
  assumes "sin x = cos x"
  shows "\<exists>k::int. x = pi / 4 + of_int k * pi"
proof -
  have "sin (x - pi / 4) = 0"
    using assms by (simp add: sin_diff sin_45 cos_45)
  then obtain k :: int where "x - pi / 4 = of_int k * pi"
    by (auto simp: sin_zero_iff_int2)
  then show ?thesis by (intro exI [of _ k]) simp
qed

lemma sin_mas_cos_mayor_1:
  assumes "0 < x" and "x < pi / 2"
  shows "1 < sin x + cos x"
proof -
  have c: "0 < cos x" "cos x \<le> 1"
    using assms cos_gt_zero [of x] by auto
  have "0 < (cos x)\<^sup>2" using c(1) by simp
  then have "(sin x)\<^sup>2 < 1"
    using sin_cos_squared_add [of x] by linarith
  then have s: "0 < sin x" "sin x < 1"
    using assms sin_gt_zero [of x] by (auto simp: abs_square_less_1)
  have "(sin x)\<^sup>2 < sin x" using s by (simp add: power2_eq_square mult_less_cancel_left1)
  moreover have "(cos x)\<^sup>2 \<le> cos x" using c by (simp add: power2_eq_square mult_le_cancel_left1)
  ultimately show ?thesis using sin_cos_squared_add [of x] by linarith
qed

end
