(* ===== verification/Engine.thy ===== *)
theory Engine
  imports Prelude
begin

text \<open>
  The trajectory engine: the physics part of \<open>simular_salto\<close> in \<^verbatim>\<open>src/sky.py\<close>
  (lines 41--65). From the launch speed \<open>v0\<close>, the angle in degrees, the ramp slope \<open>m\<close>
  (already negated from the text field, line 34) and the start height \<open>h\<close>, it computes
  the landing time in closed form, rejects a non-positive one, and samples 300 positions
  uniformly in time. The ramp line \<open>y0 + m * (x - x0)\<close> of line 98 is here too, since
  the landing time is the root of the trajectory against it.
\<close>

subsection \<open>Constants and kinematics\<close>

definition g :: real where
  "g = 9.81"

definition radians :: "real \<Rightarrow> real" where
  "radians d = d * pi / 180"

definition vel_x :: "real \<Rightarrow> real \<Rightarrow> real" where
  "vel_x v0 theta = v0 * cos theta"

definition vel_y :: "real \<Rightarrow> real \<Rightarrow> real" where
  "vel_y v0 theta = v0 * sin theta"

definition tiempo_aterrizaje :: "real \<Rightarrow> real \<Rightarrow> real \<Rightarrow> real" where
  "tiempo_aterrizaje vx vy m = 2 * (vy - m * vx) / g"

definition pos_x :: "real \<Rightarrow> real \<Rightarrow> real \<Rightarrow> real" where
  "pos_x x0 vx t = x0 + vx * t"

definition pos_y :: "real \<Rightarrow> real \<Rightarrow> real \<Rightarrow> real" where
  "pos_y y0 vy t = y0 + vy * t - 0.5 * g * t ^ 2"

definition pista :: "real \<Rightarrow> real \<Rightarrow> real \<Rightarrow> real \<Rightarrow> real" where
  "pista y0 m x0 x = y0 + m * (x - x0)"

declare g_def [sky_defs] radians_def [sky_defs] vel_x_def [sky_defs] vel_y_def [sky_defs]
  tiempo_aterrizaje_def [sky_defs] pos_x_def [sky_defs] pos_y_def [sky_defs] pista_def [sky_defs]

subsection \<open>The trajectory and its errors\<close>

text \<open>
  The two recoverable outcomes of \<open>simular_salto\<close> that are not a trajectory: a field
  that \<open>float()\<close> rejects (line 36, \<open>ValueError\<close>) and a non-positive landing time
  (line 53).
\<close>

datatype salto_error = ErrorNumerico | SinInterseccion

text \<open>The arrays \<open>t\<close>, \<open>x\<close>, \<open>y\<close> of lines 59--61 and the landing time they end at.\<close>

record trayectoria =
  t_land :: real
  tray_t :: "real list"
  tray_x :: "real list"
  tray_y :: "real list"

definition num_muestras :: nat where
  "num_muestras = 300"

definition calcular_trayectoria :: "real \<Rightarrow> real \<Rightarrow> real \<Rightarrow> real \<Rightarrow> salto_error + trayectoria" where
  "calcular_trayectoria v0 angulo m h =
     (let theta = radians angulo;
          x0 = 0; y0 = h;
          v0x = vel_x v0 theta;
          v0y = vel_y v0 theta;
          t_aterrizaje = tiempo_aterrizaje v0x v0y m
      in if t_aterrizaje \<le> 0 then Inl SinInterseccion
         else let t = linspace 0 t_aterrizaje num_muestras
              in Inr \<lparr>t_land = t_aterrizaje, tray_t = t,
                      tray_x = map (pos_x x0 v0x) t,
                      tray_y = map (pos_y y0 v0y) t\<rparr>)"

definition punto_aterrizaje :: "trayectoria \<Rightarrow> punto" where
  "punto_aterrizaje tr = (last (tray_x tr), last (tray_y tr))"

declare num_muestras_def [sky_defs] calcular_trayectoria_def [sky_defs] punto_aterrizaje_def [sky_defs]

text \<open>
  The specification the closed form implements (spec, section 4.1): the landing time is
  the positive root of \<open>y(t) = ramp(x(t))\<close>, and without one the engine reports no
  intersection. \<open>THE\<close> makes it a specification, not a program.
\<close>

definition en_pista :: "real \<Rightarrow> real \<Rightarrow> real \<Rightarrow> real \<Rightarrow> real \<Rightarrow> bool" where
  "en_pista h m vx vy t \<longleftrightarrow> pos_y h vy t = pista h m 0 (pos_x 0 vx t)"

definition aterrizaje_spec :: "real \<Rightarrow> real \<Rightarrow> real \<Rightarrow> real \<Rightarrow> real option" where
  "aterrizaje_spec h m vx vy =
     (if \<exists>t>0. en_pista h m vx vy t then Some (THE t. 0 < t \<and> en_pista h m vx vy t) else None)"

definition trayectoria_spec :: "real \<Rightarrow> real \<Rightarrow> real \<Rightarrow> real \<Rightarrow> salto_error + trayectoria" where
  "trayectoria_spec v0 angulo m h =
     (let vx = vel_x v0 (radians angulo); vy = vel_y v0 (radians angulo)
      in case aterrizaje_spec h m vx vy of
           None \<Rightarrow> Inl SinInterseccion
         | Some T \<Rightarrow> Inr \<lparr>t_land = T, tray_t = linspace 0 T num_muestras,
                           tray_x = map (pos_x 0 vx) (linspace 0 T num_muestras),
                           tray_y = map (pos_y h vy) (linspace 0 T num_muestras)\<rparr>)"

subsection \<open>The height above the ramp\<close>

text \<open>
  The one identity behind the closed form of line 52: along the flight, the jumper's
  height above the ramp is \<open>g/2 * t * (t_land - t)\<close>. It is zero exactly at \<open>t = 0\<close>
  and \<open>t = t_land\<close>, and positive in between.
\<close>

lemma altura_sobre_pista:
  "pos_y y0 vy t - pista y0 m 0 (pos_x 0 vx t) = g / 2 * t * (tiempo_aterrizaje vx vy m - t)"
  by (simp add: pos_y_def pista_def pos_x_def tiempo_aterrizaje_def g_def power2_eq_square
      algebra_simps)

lemma g_pos [simp]: "0 < g" and g_nonzero [simp]: "g \<noteq> 0" and g_not_neg [simp]: "\<not> g < 0"
  and g_nonneg [simp]: "0 \<le> g"
  by (simp_all add: g_def)

lemma en_pista_iff:
  "pos_y y0 vy t = pista y0 m 0 (pos_x 0 vx t) \<longleftrightarrow> t = 0 \<or> t = tiempo_aterrizaje vx vy m"
proof -
  have "pos_y y0 vy t = pista y0 m 0 (pos_x 0 vx t) \<longleftrightarrow>
        g / 2 * t * (tiempo_aterrizaje vx vy m - t) = 0"
    using altura_sobre_pista [of y0 vy t m vx] by linarith
  then show ?thesis by auto
qed

lemma sobre_pista_iff:
  "pista y0 m 0 (pos_x 0 vx t) < pos_y y0 vy t \<longleftrightarrow>
   0 < t * (tiempo_aterrizaje vx vy m - t)"
proof -
  have d: "pos_y y0 vy t - pista y0 m 0 (pos_x 0 vx t) =
           g / 2 * (t * (tiempo_aterrizaje vx vy m - t))"
    using altura_sobre_pista [of y0 vy t m vx] by (simp add: mult.assoc)
  have "pista y0 m 0 (pos_x 0 vx t) < pos_y y0 vy t \<longleftrightarrow>
        0 < pos_y y0 vy t - pista y0 m 0 (pos_x 0 vx t)"
    by simp
  also have "\<dots> \<longleftrightarrow> 0 < g / 2 * (t * (tiempo_aterrizaje vx vy m - t))"
    by (simp only: d)
  also have "\<dots> \<longleftrightarrow> 0 < t * (tiempo_aterrizaje vx vy m - t)"
    by (simp add: zero_less_mult_iff)
  finally show ?thesis .
qed

subsection \<open>The outcome of the engine\<close>

lemma calcular_trayectoria_Inl:
  "calcular_trayectoria v0 angulo m h = Inl e \<longleftrightarrow>
   e = SinInterseccion \<and>
   tiempo_aterrizaje (vel_x v0 (radians angulo)) (vel_y v0 (radians angulo)) m \<le> 0"
  by (auto simp: calcular_trayectoria_def Let_def)

lemma calcular_trayectoria_Inr:
  "calcular_trayectoria v0 angulo m h = Inr tr \<longleftrightarrow>
   (let vx = vel_x v0 (radians angulo); vy = vel_y v0 (radians angulo);
        T = tiempo_aterrizaje vx vy m
    in 0 < T \<and> tr = \<lparr>t_land = T, tray_t = linspace 0 T num_muestras,
                       tray_x = map (pos_x 0 vx) (linspace 0 T num_muestras),
                       tray_y = map (pos_y h vy) (linspace 0 T num_muestras)\<rparr>)"
  by (auto simp: calcular_trayectoria_def Let_def)

text \<open>Pointwise form of a computed trajectory, the shape every later proof uses.\<close>

lemma trayectoria_nth:
  assumes "calcular_trayectoria v0 angulo m h = Inr tr"
  defines "vx \<equiv> vel_x v0 (radians angulo)" and "vy \<equiv> vel_y v0 (radians angulo)"
  shows "0 < t_land tr" and "t_land tr = tiempo_aterrizaje vx vy m"
    and "length (tray_t tr) = num_muestras" and "length (tray_x tr) = num_muestras"
    and "length (tray_y tr) = num_muestras"
    and "tray_t tr = linspace 0 (t_land tr) num_muestras"
    and "\<And>i. i < num_muestras \<Longrightarrow> tray_x tr ! i = pos_x 0 vx (tray_t tr ! i)"
    and "\<And>i. i < num_muestras \<Longrightarrow> tray_y tr ! i = pos_y h vy (tray_t tr ! i)"
  using assms(1) unfolding calcular_trayectoria_Inr vx_def vy_def Let_def
  by auto

lemma num_muestras_gt1 [simp]: "1 < num_muestras"
  and num_muestras_pos [simp]: "0 < num_muestras"
  and num_muestras_last [simp]: "num_muestras - Suc 0 < num_muestras"
  by (simp_all add: num_muestras_def)

lemma trayectoria_last:
  assumes "calcular_trayectoria v0 angulo m h = Inr tr"
  shows "tray_t tr ! (num_muestras - 1) = t_land tr"
    and "last (tray_x tr) = tray_x tr ! (num_muestras - 1)"
    and "last (tray_y tr) = tray_y tr ! (num_muestras - 1)"
proof -
  note T = trayectoria_nth [OF assms]
  show "tray_t tr ! (num_muestras - 1) = t_land tr"
    using T(6) linspace_nth_last [OF num_muestras_gt1] by simp
  have ne: "tray_x tr \<noteq> []" "tray_y tr \<noteq> []"
    using T(4,5) num_muestras_gt1 by auto
  show "last (tray_x tr) = tray_x tr ! (num_muestras - 1)"
    using ne(1) T(4) by (simp add: last_conv_nth)
  show "last (tray_y tr) = tray_y tr ! (num_muestras - 1)"
    using ne(2) T(5) by (simp add: last_conv_nth)
qed


lemma calcular_trayectoria_existe:
  "0 < tiempo_aterrizaje (vel_x v0 (radians angulo)) (vel_y v0 (radians angulo)) m \<Longrightarrow>
   \<exists>tr. calcular_trayectoria v0 angulo m h = Inr tr"
  by (simp add: calcular_trayectoria_def Let_def)

lemma tiempo_muestra:
  assumes "calcular_trayectoria v0 angulo m h = Inr tr" and "i < num_muestras"
  shows "0 \<le> tray_t tr ! i \<and> tray_t tr ! i \<le> t_land tr"
  using trayectoria_nth(1,6) [OF assms(1)] linspace_nth_bounds [OF assms(2)] by simp

lemma altura_muestra:
  assumes "calcular_trayectoria v0 angulo m h = Inr tr" and "i < num_muestras"
  shows "tray_y tr ! i - pista h m 0 (tray_x tr ! i) =
         g / 2 * (tray_t tr ! i) * (t_land tr - tray_t tr ! i)"
  using trayectoria_nth(2,7,8) [OF assms(1)] assms(2) altura_sobre_pista by simp

lemma muestra_sobre_pista:
  assumes "calcular_trayectoria v0 angulo m h = Inr tr" and "i < num_muestras"
  shows "pista h m 0 (tray_x tr ! i) \<le> tray_y tr ! i"
proof -
  have "0 \<le> g / 2 * (tray_t tr ! i) * (t_land tr - tray_t tr ! i)"
    using tiempo_muestra [OF assms] by simp
  then show ?thesis using altura_muestra [OF assms] by linarith
qed

lemma punto_aterrizaje_formula:
  assumes "calcular_trayectoria v0 angulo m h = Inr tr"
  shows "punto_aterrizaje tr = (pos_x 0 (vel_x v0 (radians angulo)) (t_land tr),
                                pos_y h (vel_y v0 (radians angulo)) (t_land tr))"
  using trayectoria_nth(7,8) [OF assms, of "num_muestras - 1"] trayectoria_last [OF assms]
  by (simp add: punto_aterrizaje_def)

lemma radians_rango:
  assumes "-90 < a" and "a < 90"
  shows "-(pi / 2) < radians a \<and> radians a < pi / 2"
proof -
  have "(-90) * pi < a * pi" and "a * pi < 90 * pi"
    using assms pi_gt_zero by (intro mult_strict_right_mono; simp)+
  then show ?thesis by (simp add: radians_def)
qed

subsection \<open>Properties of the engine\<close>

text \<open>
  C1. The landing point the engine reports (\<open>x[-1], y[-1]\<close>, lines 64--65) lies on
  the ramp line: the closed-form landing time is a root of the trajectory against the
  ramp, and \<open>linspace\<close> ends exactly at it.
\<close>

theorem aterrizaje_en_pista:
  assumes "calcular_trayectoria v0 angulo m h = Inr tr"
  shows "snd (punto_aterrizaje tr) = pista h m 0 (fst (punto_aterrizaje tr))"
  using en_pista_iff trayectoria_nth(2) [OF assms] punto_aterrizaje_formula [OF assms]
  by simp

theorem aterrizaje_en_pista_witness:
  "\<exists>tr. calcular_trayectoria 25 0 (-1) 20 = Inr tr \<and>
        snd (punto_aterrizaje tr) = pista 20 (-1) 0 (fst (punto_aterrizaje tr))"
proof -
  have "0 < tiempo_aterrizaje (vel_x 25 (radians 0)) (vel_y 25 (radians 0)) (-1)"
    by (simp add: sky_defs)
  then obtain tr where tr: "calcular_trayectoria 25 0 (-1) 20 = Inr tr"
    using calcular_trayectoria_existe by blast
  show ?thesis using tr aterrizaje_en_pista [OF tr] by blast
qed

text \<open>
  C2. Every sample of the trajectory lies on or above the ramp, and it touches the ramp
  only at the first sample (the launch point) and the last (the landing point): the
  jumper never passes through the landing slope during the flight.
\<close>

theorem trayectoria_sobre_pista:
  assumes tr: "calcular_trayectoria v0 angulo m h = Inr tr" and i: "i < num_muestras"
  shows "pista h m 0 (tray_x tr ! i) \<le> tray_y tr ! i \<and>
         (tray_y tr ! i = pista h m 0 (tray_x tr ! i) \<longleftrightarrow> i = 0 \<or> i = num_muestras - 1)"
proof -
  note T = trayectoria_nth [OF tr]
  let ?t = "tray_t tr ! i"
  have d: "tray_y tr ! i - pista h m 0 (tray_x tr ! i) = g / 2 * ?t * (t_land tr - ?t)"
    by (rule altura_muestra [OF tr i])
  consider "i = 0" | "i = num_muestras - 1" | "0 < i \<and> i < num_muestras - 1"
    using i by linarith
  then show ?thesis
  proof cases
    case 1
    then have "?t = 0" using T(6) by simp
    with d 1 show ?thesis by simp
  next
    case 2
    then have "?t = t_land tr" using trayectoria_last(1) [OF tr] by simp
    with d 2 show ?thesis by simp
  next
    case 3
    then have "0 < ?t \<and> ?t < t_land tr"
      using T(1,6) linspace_nth_strict [of i num_muestras 0 "t_land tr"] by simp
    then have "0 < g / 2 * ?t * (t_land tr - ?t)" by simp
    with d 3 show ?thesis by simp
  qed
qed

theorem trayectoria_sobre_pista_witness:
  "\<exists>tr. calcular_trayectoria 25 0 (-1) 20 = Inr tr \<and>
        pista 20 (-1) 0 (tray_x tr ! 150) < tray_y tr ! 150"
proof -
  have "0 < tiempo_aterrizaje (vel_x 25 (radians 0)) (vel_y 25 (radians 0)) (-1)"
    by (simp add: sky_defs)
  then obtain tr where tr: "calcular_trayectoria 25 0 (-1) 20 = Inr tr"
    using calcular_trayectoria_existe by blast
  have "(150::nat) < num_muestras" by (simp add: num_muestras_def)
  from trayectoria_sobre_pista [OF tr this] have
    "pista 20 (-1) 0 (tray_x tr ! 150) \<le> tray_y tr ! 150 \<and>
     tray_y tr ! 150 \<noteq> pista 20 (-1) 0 (tray_x tr ! 150)"
    by (simp add: num_muestras_def)
  with tr show ?thesis by auto
qed


text \<open>
  C32. A horizontal launch (angle 0) onto a flat ramp (slope 0) is classified as "no
  intersection", whatever the speed and height: the landing time is 0.
\<close>

theorem salto_horizontal_sin_interseccion:
  "calcular_trayectoria v0 0 0 h = Inl SinInterseccion"
  by (simp add: calcular_trayectoria_Inl sky_defs)

text \<open>
  C22. Shape of a computed trajectory: 300 samples in each array, sample times sorted from
  0 to the landing time, and the first sample is the launch point \<open>(x0, y0) = (0, h)\<close>.
\<close>

theorem muestras_forma:
  assumes tr: "calcular_trayectoria v0 angulo m h = Inr tr"
  shows "length (tray_t tr) = 300 \<and> length (tray_x tr) = 300 \<and> length (tray_y tr) = 300 \<and>
         sorted (tray_t tr) \<and> tray_t tr ! 0 = 0 \<and> last (tray_t tr) = t_land tr \<and>
         0 < t_land tr \<and> (tray_x tr ! 0, tray_y tr ! 0) = (0, h)"
proof -
  note T = trayectoria_nth [OF tr]
  have n0: "0 < num_muestras" by (simp add: num_muestras_def)
  have "sorted (tray_t tr)" using T(1,6) sorted_linspace by simp
  moreover have "tray_t tr ! 0 = 0" using T(6) n0 by simp
  moreover have "last (tray_t tr) = t_land tr"
    using T(6) linspace_last [OF num_muestras_gt1] by simp
  moreover have "(tray_x tr ! 0, tray_y tr ! 0) = (0, h)"
    using T(7,8) [OF n0] \<open>tray_t tr ! 0 = 0\<close> by (simp add: pos_x_def pos_y_def)
  ultimately show ?thesis using T(1,3,4,5) by (simp add: num_muestras_def)
qed

theorem muestras_forma_witness:
  "\<exists>tr. calcular_trayectoria 25 0 (-1) 20 = Inr tr \<and> length (tray_x tr) = 300 \<and>
        (tray_x tr ! 0, tray_y tr ! 0) = (0, 20)"
proof -
  have "0 < tiempo_aterrizaje (vel_x 25 (radians 0)) (vel_y 25 (radians 0)) (-1)"
    by (simp add: sky_defs)
  then obtain tr where tr: "calcular_trayectoria 25 0 (-1) 20 = Inr tr"
    using calcular_trayectoria_existe by blast
  have "length (tray_x tr) = 300 \<and> (tray_x tr ! 0, tray_y tr ! 0) = (0, 20)"
    using muestras_forma [OF tr] by simp
  with tr show ?thesis by blast
qed

text \<open>
  C23. For a positive speed and an angle strictly between -90 and 90 degrees, a computed
  trajectory lands at a positive horizontal distance from the launch point.
\<close>

theorem distancia_positiva:
  assumes tr: "calcular_trayectoria v0 angulo m h = Inr tr"
    and v0: "0 < v0" and a1: "-90 < angulo" and a2: "angulo < 90"
  shows "0 < fst (punto_aterrizaje tr)"
proof -
  have "0 < cos (radians angulo)"
    using radians_rango [OF a1 a2] by (intro cos_gt_zero_pi) auto
  with v0 have "0 < vel_x v0 (radians angulo)" by (simp add: vel_x_def)
  with trayectoria_nth(1) [OF tr] show ?thesis
    by (simp add: punto_aterrizaje_formula [OF tr] pos_x_def)
qed

theorem distancia_positiva_witness:
  "\<exists>tr. calcular_trayectoria 25 0 (-1) 20 = Inr tr \<and> 0 < fst (punto_aterrizaje tr)"
proof -
  have "0 < tiempo_aterrizaje (vel_x 25 (radians 0)) (vel_y 25 (radians 0)) (-1)"
    by (simp add: sky_defs)
  then obtain tr where tr: "calcular_trayectoria 25 0 (-1) 20 = Inr tr"
    using calcular_trayectoria_existe by blast
  have "0 < fst (punto_aterrizaje tr)"
    by (rule distancia_positiva [OF tr]) simp_all
  with tr show ?thesis by blast
qed

text \<open>
  C24. The restriction of C23 to angles below 90 degrees is needed: the angle field accepts
  any number, and a launch at 135 degrees onto a descending ramp (pendiente 0.5, so
  \<open>m = -0.5\<close>) is a valid trajectory that lands behind the launch point.
\<close>

lemma trig_135:
  "sin (radians 135) = sqrt 2 / 2" "cos (radians 135) = - (sqrt 2 / 2)"
proof -
  have r: "radians 135 = pi - pi / 4" by (simp add: radians_def)
  show "sin (radians 135) = sqrt 2 / 2" by (simp only: r sin_pi_minus sin_45)
  show "cos (radians 135) = - (sqrt 2 / 2)" by (simp only: r cos_pi_minus cos_45)
qed

theorem salto_hacia_atras:
  "\<exists>tr. calcular_trayectoria 25 135 (-1 / 2) 20 = Inr tr \<and> fst (punto_aterrizaje tr) < 0"
proof -
  let ?vx = "vel_x 25 (radians 135)" and ?vy = "vel_y 25 (radians 135)"
  have vx: "?vx = - (25 * sqrt 2 / 2)" and vy: "?vy = 25 * sqrt 2 / 2"
    by (simp_all add: vel_x_def vel_y_def trig_135)
  have T: "tiempo_aterrizaje ?vx ?vy (-1 / 2) = 25 * sqrt 2 / (2 * g)"
    by (simp add: tiempo_aterrizaje_def vx vy field_simps)
  then have "0 < tiempo_aterrizaje ?vx ?vy (-1 / 2)" by simp
  then obtain tr where tr: "calcular_trayectoria 25 135 (-1 / 2) 20 = Inr tr"
    using calcular_trayectoria_existe by blast
  have "fst (punto_aterrizaje tr) = - (25 * sqrt 2 / 2) * (25 * sqrt 2 / (2 * g))"
    using punto_aterrizaje_formula [OF tr] trayectoria_nth(2) [OF tr] T
    by (simp add: pos_x_def vx)
  also have "\<dots> < 0" by (simp add: mult_pos_pos)
  finally show ?thesis using tr by blast
qed

text \<open>
  C33. A vertical launch (90 degrees) onto a flat ramp returns to the launch point:
  for every positive speed the computation succeeds and lands at \<open>(0, h)\<close>.
\<close>

theorem salto_vertical:
  assumes "0 < v0"
  shows "\<exists>tr. calcular_trayectoria v0 90 0 h = Inr tr \<and> punto_aterrizaje tr = (0, h)"
proof -
  have rad: "radians 90 = pi / 2" by (simp add: radians_def)
  let ?vx = "vel_x v0 (radians 90)" and ?vy = "vel_y v0 (radians 90)"
  have vx: "?vx = 0" and vy: "?vy = v0" by (simp_all add: vel_x_def vel_y_def rad)
  have T: "tiempo_aterrizaje ?vx ?vy 0 = 2 * v0 / g"
    by (simp add: tiempo_aterrizaje_def vx vy)
  with assms have "0 < tiempo_aterrizaje ?vx ?vy 0" by simp
  then obtain tr where tr: "calcular_trayectoria v0 90 0 h = Inr tr"
    using calcular_trayectoria_existe by blast
  have "pos_y h v0 (2 * v0 / g) = h"
    by (simp add: pos_y_def power2_eq_square field_simps)
  then have "punto_aterrizaje tr = (0, h)"
    using punto_aterrizaje_formula [OF tr] trayectoria_nth(2) [OF tr] T
    by (simp add: pos_x_def vx vy)
  with tr show ?thesis by blast
qed

theorem salto_vertical_witness:
  "\<exists>tr. calcular_trayectoria 25 90 0 20 = Inr tr \<and> punto_aterrizaje tr = (0, 20)"
  using salto_vertical [of 25 20] by simp

text \<open>
  C34. The start height only shifts the trajectory vertically: the ramp is anchored at the
  launch point (line 98 uses \<open>y0 = h\<close>), so the landing time, the sample times and the
  horizontal positions do not depend on \<open>h\<close>.
\<close>

theorem altura_solo_traslada:
  assumes "calcular_trayectoria v0 angulo m h = Inr tr"
  shows "calcular_trayectoria v0 angulo m h' =
         Inr (tr\<lparr>tray_y := map (\<lambda>y. y + (h' - h)) (tray_y tr)\<rparr>)"
  using assms unfolding calcular_trayectoria_Inr Let_def
  by (auto simp: pos_y_def)

theorem altura_solo_traslada_witness:
  "\<exists>tr. calcular_trayectoria 25 0 (-1) 20 = Inr tr \<and>
        calcular_trayectoria 25 0 (-1) 0 = Inr (tr\<lparr>tray_y := map (\<lambda>y. y + (0 - 20)) (tray_y tr)\<rparr>)"
proof -
  have "0 < tiempo_aterrizaje (vel_x 25 (radians 0)) (vel_y 25 (radians 0)) (-1)"
    by (simp add: sky_defs)
  then obtain tr where tr: "calcular_trayectoria 25 0 (-1) 20 = Inr tr"
    using calcular_trayectoria_existe by blast
  show ?thesis using tr altura_solo_traslada [OF tr, of 0] by blast
qed

text \<open>
  C3. The closed form of line 52 refines the specification: for every input,
  \<open>calcular_trayectoria\<close> is the flight sampled up to its unique positive root on the
  ramp, and "no intersection" exactly when there is no positive root. This rests on the
  ramp being anchored at the launch point (line 98 with \<open>x0 = 0, y0 = h\<close>).
\<close>

lemma aterrizaje_spec_closed_form:
  "aterrizaje_spec h m vx vy =
   (if 0 < tiempo_aterrizaje vx vy m then Some (tiempo_aterrizaje vx vy m) else None)"
proof (cases "0 < tiempo_aterrizaje vx vy m")
  case True
  have "(THE t. 0 < t \<and> en_pista h m vx vy t) = tiempo_aterrizaje vx vy m"
    by (rule the_equality) (use True in \<open>auto simp: en_pista_def en_pista_iff\<close>)
  with True show ?thesis by (auto simp: aterrizaje_spec_def en_pista_def en_pista_iff)
next
  case False
  then show ?thesis by (auto simp: aterrizaje_spec_def en_pista_def en_pista_iff)
qed

theorem calcular_refina_spec:
  "calcular_trayectoria v0 angulo m h = trayectoria_spec v0 angulo m h"
  by (simp add: calcular_trayectoria_def trayectoria_spec_def aterrizaje_spec_closed_form Let_def)

end
