(* ===== verification/Search.thy ===== *)
theory Search
  imports Engine
begin

text \<open>
  The best-angle sweep of \<open>simular_salto\<close> (\<^verbatim>\<open>src/sky.py\<close> lines 67--79): the
  state \<open>(mejor_dist, mejor_ang)\<close> starts at \<open>(0, 0)\<close>, and for each of 200 angles
  from 1 to 80 degrees the loop body computes the landing time with the same closed form
  as the engine and, when it is positive and the landing distance is strictly greater than
  the best so far, takes the angle. The loop is \<open>recorrer\<close> over the body
  \<open>paso_busqueda\<close>; \<open>busqueda_spec\<close> is the reference it is proved equal to: the
  largest distance over the valid angles (or 0), and the first angle that reaches it.
\<close>

record busqueda =
  mejor_dist :: real
  mejor_ang :: real

definition valido :: "real \<Rightarrow> real \<Rightarrow> real \<Rightarrow> bool" where
  "valido v0 m ang_test =
     (let th = radians ang_test
      in 0 < tiempo_aterrizaje (vel_x v0 th) (vel_y v0 th) m)"

definition alcance :: "real \<Rightarrow> real \<Rightarrow> real \<Rightarrow> real" where
  "alcance v0 m ang_test =
     (let th = radians ang_test; vx = vel_x v0 th; vy = vel_y v0 th
      in pos_x 0 vx (tiempo_aterrizaje vx vy m))"

definition paso_busqueda :: "real \<Rightarrow> real \<Rightarrow> busqueda \<Rightarrow> real \<Rightarrow> busqueda" where
  "paso_busqueda v0 m b ang_test =
     (if valido v0 m ang_test then
        (let x_test = alcance v0 m ang_test
         in if mejor_dist b < x_test then \<lparr>mejor_dist = x_test, mejor_ang = ang_test\<rparr> else b)
      else b)"

fun recorrer :: "real \<Rightarrow> real \<Rightarrow> real list \<Rightarrow> busqueda \<Rightarrow> busqueda" where
  "recorrer v0 m [] b = b"
| "recorrer v0 m (a # as) b = recorrer v0 m as (paso_busqueda v0 m b a)"

definition angulos_prueba :: "real list" where
  "angulos_prueba = linspace 1 80 200"

definition mejor_angulo :: "real \<Rightarrow> real \<Rightarrow> busqueda" where
  "mejor_angulo v0 m = recorrer v0 m angulos_prueba \<lparr>mejor_dist = 0, mejor_ang = 0\<rparr>"

text \<open>The reference: the maximum over the valid angles and the first angle attaining it.\<close>

definition busqueda_spec :: "real \<Rightarrow> real \<Rightarrow> real list \<Rightarrow> busqueda" where
  "busqueda_spec v0 m as =
     (let D = Max (insert 0 (alcance v0 m ` {a \<in> set as. valido v0 m a}))
      in \<lparr>mejor_dist = D,
          mejor_ang = (if 0 < D
                       then (case find (\<lambda>a. valido v0 m a \<and> alcance v0 m a = D) as of
                               Some a \<Rightarrow> a | None \<Rightarrow> 0)
                       else 0)\<rparr>)"

text \<open>A search state with its distance scaled by \<open>c\<^sup>2\<close>, for the lemmas on scaling the speed.\<close>

definition escalar :: "real \<Rightarrow> busqueda \<Rightarrow> busqueda" where
  "escalar c b = b\<lparr>mejor_dist := c\<^sup>2 * mejor_dist b\<rparr>"

declare valido_def [sky_defs] alcance_def [sky_defs] paso_busqueda_def [sky_defs]
  angulos_prueba_def [sky_defs] mejor_angulo_def [sky_defs] busqueda_spec_def [sky_defs]

subsection \<open>The loop, step by step\<close>

text \<open>The distance the loop ends with: the maximum of the start and the valid distances.\<close>

lemma recorrer_dist:
  "mejor_dist (recorrer v0 m as b) =
   fold max (map (alcance v0 m) (filter (valido v0 m) as)) (mejor_dist b)"
  by (induction as arbitrary: b) (auto simp: paso_busqueda_def Let_def max_def)

text \<open>A final distance above the start is the distance of some valid angle of the list.\<close>

lemma recorrer_dist_alcanzado:
  assumes "mejor_dist b < mejor_dist (recorrer v0 m as b)"
  shows "\<exists>a\<in>set as. valido v0 m a \<and> alcance v0 m a = mejor_dist (recorrer v0 m as b)"
proof -
  let ?D = "mejor_dist (recorrer v0 m as b)"
  have "?D \<in> insert (mejor_dist b) (set (map (alcance v0 m) (filter (valido v0 m) as)))"
    unfolding recorrer_dist by (rule fold_max_mem)
  with assms show ?thesis by auto
qed

text \<open>
  The angle the loop ends with: unchanged unless some valid angle beats the start, and
  then the first angle whose distance is the final maximum.
\<close>

lemma recorrer_ang:
  "mejor_ang (recorrer v0 m as b) =
   (if mejor_dist b < mejor_dist (recorrer v0 m as b)
    then (case find (\<lambda>a. valido v0 m a \<and> alcance v0 m a = mejor_dist (recorrer v0 m as b)) as of
            Some a \<Rightarrow> a | None \<Rightarrow> mejor_ang b)
    else mejor_ang b)"
proof (induction as arbitrary: b)
  case Nil
  then show ?case by simp
next
  case (Cons a as)
  show ?case
  proof (cases "valido v0 m a \<and> mejor_dist b < alcance v0 m a")
    case True
    define b' where "b' = \<lparr>mejor_dist = alcance v0 m a, mejor_ang = a\<rparr>"
    define D where "D = mejor_dist (recorrer v0 m as b')"
    have step: "paso_busqueda v0 m b a = b'"
      using True by (simp add: paso_busqueda_def b'_def)
    have bd: "mejor_dist b' = alcance v0 m a" and ba: "mejor_ang b' = a"
      by (simp_all add: b'_def)
    have aD: "alcance v0 m a \<le> D"
      unfolding D_def recorrer_dist bd by (rule fold_max_ge_start)
    have IH: "mejor_ang (recorrer v0 m as b') =
              (if alcance v0 m a < D
               then (case find (\<lambda>x. valido v0 m x \<and> alcance v0 m x = D) as of
                       Some x \<Rightarrow> x | None \<Rightarrow> a)
               else a)"
      using Cons.IH [of b'] by (simp only: D_def [symmetric] bd ba)
    show ?thesis
    proof (cases "alcance v0 m a = D")
      case True
      with \<open>valido v0 m a \<and> mejor_dist b < alcance v0 m a\<close> show ?thesis
        by (simp add: step IH D_def)
    next
      case False
      with aD have lt: "alcance v0 m a < D" by simp
      then obtain x where "x \<in> set as" "valido v0 m x \<and> alcance v0 m x = D"
        using recorrer_dist_alcanzado [of b' v0 m as] by (auto simp: bd D_def [symmetric])
      then have "find (\<lambda>x. valido v0 m x \<and> alcance v0 m x = D) as \<noteq> None"
        by (auto simp: find_None_iff)
      with lt False \<open>valido v0 m a \<and> mejor_dist b < alcance v0 m a\<close> show ?thesis
        by (auto simp: step IH D_def split: option.split)
    qed
  next
    case False
    then have step: "paso_busqueda v0 m b a = b"
      by (auto simp: paso_busqueda_def)
    let ?D = "mejor_dist (recorrer v0 m as b)"
    show ?thesis
    proof (cases "mejor_dist b < ?D")
      case True
      with False have "\<not> (valido v0 m a \<and> alcance v0 m a = ?D)" by auto
      with True show ?thesis using Cons.IH [of b] by (auto simp: step)
    next
      case False
      then show ?thesis using Cons.IH [of b] by (simp add: step)
    qed
  qed
qed

subsection \<open>Scaling the speed\<close>

text \<open>
  Landing time grows linearly with the speed and distance quadratically, and the sign of
  the landing time does not change, so a positive factor on the speed keeps every
  comparison of the sweep.
\<close>

lemma tiempo_escala:
  "tiempo_aterrizaje (vel_x (c * v0) th) (vel_y (c * v0) th) m =
   c * tiempo_aterrizaje (vel_x v0 th) (vel_y v0 th) m"
  by (simp add: tiempo_aterrizaje_def vel_x_def vel_y_def algebra_simps)

lemma valido_escala: "0 < c \<Longrightarrow> valido (c * v0) m a = valido v0 m a"
  unfolding valido_def Let_def tiempo_escala by (simp add: zero_less_mult_iff)

lemma alcance_escala: "alcance (c * v0) m a = c\<^sup>2 * alcance v0 m a"
  unfolding alcance_def Let_def tiempo_escala
  by (simp add: pos_x_def vel_x_def power2_eq_square algebra_simps)

lemma paso_busqueda_escala:
  assumes "0 < c"
  shows "paso_busqueda (c * v0) m (escalar c b) a = escalar c (paso_busqueda v0 m b a)"
proof -
  have "c\<^sup>2 * mejor_dist b < c\<^sup>2 * alcance v0 m a \<longleftrightarrow> mejor_dist b < alcance v0 m a"
    using assms by simp
  then show ?thesis
    using assms by (simp add: paso_busqueda_def escalar_def valido_escala alcance_escala)
qed

lemma recorrer_escala:
  "0 < c \<Longrightarrow> recorrer (c * v0) m as (escalar c b) = escalar c (recorrer v0 m as b)"
  by (induction as arbitrary: b) (simp_all add: paso_busqueda_escala)

subsection \<open>Angles that are always valid\<close>

text \<open>On a descending or flat ramp every angle strictly between 0 and 90 degrees lands.\<close>

lemma valido_rampa_descendente:
  assumes "0 < v0" and "m \<le> 0" and "0 < a" and "a < 90"
  shows "valido v0 m a \<and> 0 < alcance v0 m a"
proof -
  have r: "0 < radians a" "radians a < pi / 2"
    using radians_rango [of a] assms(3,4) pi_gt_zero by (auto simp: radians_def)
  have s: "0 < sin (radians a)" using r by (intro sin_gt_zero) auto
  have c: "0 < cos (radians a)" using r by (intro cos_gt_zero) auto
  have "0 \<le> v0 * cos (radians a)" using assms(1) c by simp
  then have "m * (v0 * cos (radians a)) \<le> 0" by (rule mult_nonpos_nonneg [OF assms(2)])
  moreover have "0 < v0 * sin (radians a)" using assms(1) s by simp
  ultimately have "m * (v0 * cos (radians a)) < v0 * sin (radians a)"
    by (rule le_less_trans)
  then have num: "0 < 2 * (v0 * sin (radians a) - m * (v0 * cos (radians a)))"
    by simp
  have T: "0 < tiempo_aterrizaje (vel_x v0 (radians a)) (vel_y v0 (radians a)) m"
    unfolding tiempo_aterrizaje_def vel_x_def vel_y_def by (rule divide_pos_pos [OF num g_pos])
  then show ?thesis
    using assms(1) c by (simp add: valido_def alcance_def Let_def pos_x_def vel_x_def)
qed

lemma angulos_prueba_primero: "(1::real) \<in> set angulos_prueba"
proof -
  have "angulos_prueba ! 0 = 1" by (simp add: angulos_prueba_def)
  then show ?thesis by (metis angulos_prueba_def length_linspace nth_mem zero_less_numeral)
qed

lemma angulos_prueba_rango: "a \<in> set angulos_prueba \<Longrightarrow> 1 \<le> a \<and> a \<le> 80"
  unfolding angulos_prueba_def by (rule set_linspace_bounds) simp_all

lemma mejor_dist_no_negativa: "0 \<le> mejor_dist (mejor_angulo v0 m)"
  using fold_max_ge_start by (simp add: mejor_angulo_def recorrer_dist)

lemma mejor_dist_cota:
  "a \<in> set angulos_prueba \<Longrightarrow> valido v0 m a \<Longrightarrow> alcance v0 m a \<le> mejor_dist (mejor_angulo v0 m)"
  by (simp add: mejor_angulo_def recorrer_dist fold_max_ge_elem)

lemma mejor_dist_escala:
  "0 < c \<Longrightarrow> mejor_angulo (c * v0) m = escalar c (mejor_angulo v0 m)"
  using recorrer_escala [of c v0 m angulos_prueba "\<lparr>mejor_dist = 0, mejor_ang = 0\<rparr>"]
  by (simp add: mejor_angulo_def escalar_def)

text \<open>A positive best distance is the distance of the reported angle, a valid candidate.\<close>

lemma mejor_angulo_candidato:
  assumes "0 < mejor_dist (mejor_angulo v0 m)"
  shows "mejor_ang (mejor_angulo v0 m) \<in> set angulos_prueba \<and>
         valido v0 m (mejor_ang (mejor_angulo v0 m)) \<and>
         alcance v0 m (mejor_ang (mejor_angulo v0 m)) = mejor_dist (mejor_angulo v0 m)"
proof -
  let ?b0 = "\<lparr>mejor_dist = 0, mejor_ang = 0\<rparr> :: busqueda"
  let ?r = "recorrer v0 m angulos_prueba ?b0"
  have b0: "mejor_dist ?b0 = 0" "mejor_ang ?b0 = 0" by simp_all
  have pos: "0 < mejor_dist ?r" using assms by (simp add: mejor_angulo_def)
  let ?P = "\<lambda>a. valido v0 m a \<and> alcance v0 m a = mejor_dist ?r"
  have "\<exists>x\<in>set angulos_prueba. ?P x"
    using recorrer_dist_alcanzado [of ?b0 v0 m angulos_prueba] pos by simp
  then have "find ?P angulos_prueba \<noteq> None" by (auto simp: find_None_iff)
  then obtain a where a: "find ?P angulos_prueba = Some a" by blast
  then have "a \<in> set angulos_prueba \<and> ?P a"
    by (auto simp: find_Some_iff nth_mem)
  moreover have "mejor_ang ?r = a"
    using recorrer_ang [of v0 m angulos_prueba ?b0, unfolded b0] pos a by simp
  ultimately show ?thesis by (simp add: mejor_angulo_def)
qed

text \<open>When no swept angle lands farther than 0 the sweep keeps its start \<open>(0, 0)\<close>.\<close>

lemma mejor_angulo_sin_candidato:
  assumes "\<not> 0 < mejor_dist (mejor_angulo v0 m)"
  shows "mejor_dist (mejor_angulo v0 m) = 0 \<and> mejor_ang (mejor_angulo v0 m) = 0"
proof -
  let ?b0 = "\<lparr>mejor_dist = 0, mejor_ang = 0\<rparr> :: busqueda"
  have b0: "mejor_dist ?b0 = 0" "mejor_ang ?b0 = 0" by simp_all
  have "mejor_dist (mejor_angulo v0 m) = 0"
    using assms mejor_dist_no_negativa [of v0 m] by simp
  moreover have "mejor_ang (mejor_angulo v0 m) = 0"
    using recorrer_ang [of v0 m angulos_prueba ?b0, unfolded b0] assms
    by (simp add: mejor_angulo_def)
  ultimately show ?thesis by simp
qed

lemma mejor_ang_acotado: "0 \<le> mejor_ang (mejor_angulo v0 m) \<and> mejor_ang (mejor_angulo v0 m) \<le> 80"
proof (cases "0 < mejor_dist (mejor_angulo v0 m)")
  case True
  then show ?thesis using mejor_angulo_candidato [OF True] angulos_prueba_rango by fastforce
next
  case False
  then show ?thesis using mejor_angulo_sin_candidato by simp
qed

text \<open>The sweep's distance in closed form: \<open>2 v0\<^sup>2 cos (sin - m cos) / g\<close>.\<close>

lemma alcance_forma:
  "alcance v0 m a =
   2 * v0\<^sup>2 * (cos (radians a) * sin (radians a) - m * (cos (radians a))\<^sup>2) / g"
  by (simp add: alcance_def Let_def vel_x_def vel_y_def pos_x_def tiempo_aterrizaje_def
                power2_eq_square algebra_simps)

text \<open>A landing distance is at most \<open>2 v0\<^sup>2 (1 + |m|) / g\<close>, whatever the angle.\<close>

lemma alcance_cota: "\<bar>alcance v0 m a\<bar> \<le> 2 * v0\<^sup>2 * (1 + \<bar>m\<bar>) / g"
proof -
  define c where "c = cos (radians a)"
  define s where "s = sin (radians a)"
  have e: "alcance v0 m a = 2 * v0\<^sup>2 * (c * s - m * c\<^sup>2) / g"
    by (simp add: alcance_forma c_def s_def)
  have "\<bar>c * s\<bar> \<le> 1" by (simp add: c_def s_def abs_mult mult_le_one)
  moreover have "\<bar>m * c\<^sup>2\<bar> \<le> \<bar>m\<bar>"
  proof -
    have "c\<^sup>2 \<le> 1" unfolding c_def by (simp add: abs_square_le_1)
    then show ?thesis by (simp add: abs_mult mult_left_le)
  qed
  ultimately have "\<bar>c * s - m * c\<^sup>2\<bar> \<le> 1 + \<bar>m\<bar>" by linarith
  then have "2 * v0\<^sup>2 * \<bar>c * s - m * c\<^sup>2\<bar> \<le> 2 * v0\<^sup>2 * (1 + \<bar>m\<bar>)"
    by (intro mult_left_mono) simp_all
  then show ?thesis by (simp add: e abs_mult divide_right_mono)
qed

lemma mejor_dist_acotada: "mejor_dist (mejor_angulo v0 m) \<le> 2 * v0\<^sup>2 * (1 + \<bar>m\<bar>) / g"
proof (cases "0 < mejor_dist (mejor_angulo v0 m)")
  case True
  then have "mejor_dist (mejor_angulo v0 m) = alcance v0 m (mejor_ang (mejor_angulo v0 m))"
    using mejor_angulo_candidato [OF True] by simp
  then show ?thesis using alcance_cota [of v0 m "mejor_ang (mejor_angulo v0 m)"] by simp
next
  case False
  then show ?thesis using mejor_angulo_sin_candidato [OF False] by simp
qed

subsection \<open>Steeper ramps\<close>

text \<open>Lowering the slope \<open>m\<close> (a steeper descent) lengthens every landing distance and,
  for a non-negative speed and an angle with non-negative cosine, keeps a valid angle
  valid.\<close>

lemma alcance_pendiente: "m' \<le> m \<Longrightarrow> alcance v0 m a \<le> alcance v0 m' a"
  by (simp add: alcance_forma divide_right_mono mult_left_mono mult_right_mono)

lemma valido_pendiente:
  assumes "0 \<le> v0" and "0 \<le> cos (radians a)" and "m' \<le> m" and "valido v0 m a"
  shows "valido v0 m' a"
proof -
  have "m' * (v0 * cos (radians a)) \<le> m * (v0 * cos (radians a))"
    using assms(1-3) by (intro mult_right_mono) simp_all
  moreover have "0 < v0 * sin (radians a) - m * (v0 * cos (radians a))"
    using assms(4) by (simp add: valido_def Let_def vel_x_def vel_y_def tiempo_aterrizaje_def
                                 zero_less_divide_iff)
  ultimately have "0 < v0 * sin (radians a) - m' * (v0 * cos (radians a))" by linarith
  then show ?thesis
    by (simp add: valido_def Let_def vel_x_def vel_y_def tiempo_aterrizaje_def zero_less_divide_iff)
qed

lemma angulos_prueba_coseno: "a \<in> set angulos_prueba \<Longrightarrow> 0 < cos (radians a)"
  using angulos_prueba_rango [of a] radians_rango [of a] by (intro cos_gt_zero_pi) auto

subsection \<open>Properties of the sweep\<close>

text \<open>
  C4. The loop of lines 67--79, run from \<open>(mejor_dist, mejor_ang) = (0, 0)\<close> over any
  list of angles, returns the reference result: the largest landing distance over the
  valid angles and 0, and the first angle in scan order that reaches it (0 when no
  valid angle lands at a positive distance). The strict comparison of line 77 is what
  makes the first such angle win ties.
\<close>

theorem recorrer_equivale_spec:
  "recorrer v0 m as \<lparr>mejor_dist = 0, mejor_ang = 0\<rparr> = busqueda_spec v0 m as"
proof -
  let ?b0 = "\<lparr>mejor_dist = 0, mejor_ang = 0\<rparr> :: busqueda"
  have set_eq: "set (map (alcance v0 m) (filter (valido v0 m) as)) =
                alcance v0 m ` {a \<in> set as. valido v0 m a}"
    by auto
  have D: "mejor_dist (recorrer v0 m as ?b0) =
           Max (insert 0 (alcance v0 m ` {a \<in> set as. valido v0 m a}))"
    by (simp add: recorrer_dist fold_max_Max set_eq)
  have b0: "mejor_dist ?b0 = 0" "mejor_ang ?b0 = 0" by simp_all
  show ?thesis
  proof (rule busqueda.equality)
    show "mejor_dist (recorrer v0 m as ?b0) = mejor_dist (busqueda_spec v0 m as)"
      by (simp add: busqueda_spec_def Let_def D)
    have A: "mejor_ang (recorrer v0 m as ?b0) =
             (if 0 < mejor_dist (recorrer v0 m as ?b0)
              then (case find (\<lambda>a. valido v0 m a \<and> alcance v0 m a = mejor_dist (recorrer v0 m as ?b0)) as of
                      Some a \<Rightarrow> a | None \<Rightarrow> 0)
              else 0)"
      using recorrer_ang [of v0 m as ?b0, unfolded b0] .
    show "mejor_ang (recorrer v0 m as ?b0) = mejor_ang (busqueda_spec v0 m as)"
      unfolding A by (simp add: busqueda_spec_def Let_def D)
  qed simp
qed



text \<open>
  C11. What the sweep returns is either a candidate angle (between 1 and 80 degrees, valid,
  whose landing distance is the positive reported distance) or the initial \<open>(0, 0)\<close>:
  the reported best angle lies in the swept range exactly when some candidate lands at a
  positive distance.
\<close>

theorem mejor_angulo_rango:
  "(0 < mejor_dist (mejor_angulo v0 m) \<and> mejor_ang (mejor_angulo v0 m) \<in> set angulos_prueba \<and>
    1 \<le> mejor_ang (mejor_angulo v0 m) \<and> mejor_ang (mejor_angulo v0 m) \<le> 80 \<and>
    valido v0 m (mejor_ang (mejor_angulo v0 m)) \<and>
    alcance v0 m (mejor_ang (mejor_angulo v0 m)) = mejor_dist (mejor_angulo v0 m)) \<or>
   (mejor_dist (mejor_angulo v0 m) = 0 \<and> mejor_ang (mejor_angulo v0 m) = 0)"
proof (cases "0 < mejor_dist (mejor_angulo v0 m)")
  case True
  with mejor_angulo_candidato [OF True] angulos_prueba_rango show ?thesis by blast
next
  case False
  then show ?thesis using mejor_angulo_sin_candidato by blast
qed

text \<open>
  C25. Multiplying the launch speed by \<open>c > 0\<close> leaves the best angle unchanged and
  multiplies the best distance by \<open>c\<^sup>2\<close>.
\<close>

theorem mejor_angulo_escala:
  assumes "0 < c"
  shows "mejor_angulo (c * v0) m =
         \<lparr>mejor_dist = c\<^sup>2 * mejor_dist (mejor_angulo v0 m),
          mejor_ang = mejor_ang (mejor_angulo v0 m)\<rparr>"
  using mejor_dist_escala [OF assms, of v0 m] by (simp add: escalar_def)

theorem mejor_angulo_escala_witness:
  "mejor_angulo (2 * 25) (-1) =
   \<lparr>mejor_dist = 2\<^sup>2 * mejor_dist (mejor_angulo 25 (-1)), mejor_ang = mejor_ang (mejor_angulo 25 (-1))\<rparr>"
  by (rule mejor_angulo_escala) simp

text \<open>
  C26. A faster launch never finds a shorter best distance: for \<open>0 < v \<le> v'\<close> the best
  distance at \<open>v'\<close> is at least the one at \<open>v\<close>.
\<close>

theorem mejor_dist_monotona:
  assumes "0 < v" and "v \<le> v'"
  shows "mejor_dist (mejor_angulo v m) \<le> mejor_dist (mejor_angulo v' m)"
proof -
  define c where "c = v' / v"
  have c: "1 \<le> c" "0 < c" using assms by (simp_all add: c_def)
  have v': "v' = c * v" using assms(1) by (simp add: c_def)
  have D0: "0 \<le> mejor_dist (mejor_angulo v m)" by (rule mejor_dist_no_negativa)
  have "1 \<le> c\<^sup>2" using c(1) by (simp add: one_le_power)
  then have "mejor_dist (mejor_angulo v m) \<le> c\<^sup>2 * mejor_dist (mejor_angulo v m)"
    using D0 by (simp add: mult_le_cancel_right1)
  then show ?thesis
    using mejor_dist_escala [OF c(2), of v m] by (simp add: v' escalar_def)
qed

theorem mejor_dist_monotona_witness:
  "0 < (25::real) \<and> (25::real) \<le> 30 \<and>
   mejor_dist (mejor_angulo 25 (-1)) \<le> mejor_dist (mejor_angulo 30 (-1))"
  using mejor_dist_monotona [of 25 30 "-1"] by simp

text \<open>
  C37. A steeper descending ramp never shortens the best distance: for a non-negative
  speed, lowering the slope \<open>m\<close> (raising the \<open>pendiente\<close> field) cannot lower
  \<open>mejor_dist\<close>. Every swept angle has a positive cosine, so it stays valid and lands
  farther.
\<close>

theorem mejor_dist_pendiente:
  assumes "0 \<le> v0" and "m' \<le> m"
  shows "mejor_dist (mejor_angulo v0 m) \<le> mejor_dist (mejor_angulo v0 m')"
  unfolding mejor_angulo_def recorrer_dist
proof (rule fold_max_mono)
  fix x assume "x \<in> set (map (alcance v0 m) (filter (valido v0 m) angulos_prueba))"
  then obtain a where a: "a \<in> set angulos_prueba" "valido v0 m a" "x = alcance v0 m a" by auto
  have "valido v0 m' a"
    using valido_pendiente [OF assms(1) _ assms(2) a(2)] angulos_prueba_coseno [OF a(1)] by simp
  then show "\<exists>y\<in>set (map (alcance v0 m') (filter (valido v0 m') angulos_prueba)). x \<le> y"
    using a alcance_pendiente [OF assms(2)] by auto
qed simp

theorem mejor_dist_pendiente_witness:
  "mejor_dist (mejor_angulo 25 0) \<le> mejor_dist (mejor_angulo 25 (-1))"
  using mejor_dist_pendiente [of 25 "-1" 0] by simp

text \<open>
  C35. The reported best angle need not lie in [1, 80]: on a rising ramp at least as
  steep as the 80-degree line (pendiente \<open>-1/cos 80\<degree>\<close>, so \<open>m = 1/cos 80\<degree>\<close>), no
  swept angle lands, and for every positive speed the sweep reports angle 0 and distance 0.
\<close>

lemma rampa_empinada_invalida:
  assumes "0 < v0" and "a \<in> set angulos_prueba"
  shows "\<not> valido v0 (1 / cos (radians 80)) a"
proof -
  have a: "1 \<le> a" "a \<le> 80" using angulos_prueba_rango [OF assms(2)] by simp_all
  have r: "0 \<le> radians a" "radians a \<le> radians 80" "radians 80 \<le> pi"
    using a pi_gt_zero by (simp_all add: radians_def divide_right_mono)
  have c80: "0 < cos (radians 80)"
    using radians_rango [of 80] by (intro cos_gt_zero_pi) simp_all
  have "cos (radians 80) \<le> cos (radians a)"
    using r by (rule cos_monotone_0_pi_le)
  then have "1 \<le> cos (radians a) / cos (radians 80)" using c80 by simp
  then have "sin (radians a) \<le> cos (radians a) / cos (radians 80)"
    by (rule order_trans [OF sin_le_one])
  then have le: "v0 * sin (radians a) \<le> v0 * (cos (radians a) / cos (radians 80))"
    using assms(1) by (intro mult_left_mono) simp_all
  have eq: "1 / cos (radians 80) * (v0 * cos (radians a)) = v0 * (cos (radians a) / cos (radians 80))"
    by simp
  have "v0 * sin (radians a) - 1 / cos (radians 80) * (v0 * cos (radians a)) \<le> 0"
    unfolding eq using le by simp
  then have "tiempo_aterrizaje (vel_x v0 (radians a)) (vel_y v0 (radians a)) (1 / cos (radians 80)) \<le> 0"
    unfolding tiempo_aterrizaje_def vel_x_def vel_y_def by (simp add: divide_le_0_iff)
  then show ?thesis by (simp add: valido_def Let_def)
qed

theorem mejor_angulo_fuera_de_rango:
  assumes "0 < v0"
  shows "mejor_angulo v0 (1 / cos (radians 80)) = \<lparr>mejor_dist = 0, mejor_ang = 0\<rparr>"
proof -
  let ?m = "1 / cos (radians 80)"
  let ?b0 = "\<lparr>mejor_dist = 0, mejor_ang = 0\<rparr> :: busqueda"
  have b0: "mejor_dist ?b0 = 0" "mejor_ang ?b0 = 0" by simp_all
  have "filter (valido v0 ?m) angulos_prueba = []"
    using rampa_empinada_invalida [OF assms] by (simp add: filter_empty_conv)
  then have d: "mejor_dist (recorrer v0 ?m angulos_prueba ?b0) = 0"
    by (simp add: recorrer_dist)
  then have "mejor_ang (recorrer v0 ?m angulos_prueba ?b0) = 0"
    using recorrer_ang [of v0 ?m angulos_prueba ?b0, unfolded b0] by simp
  with d show ?thesis by (simp add: mejor_angulo_def)
qed

theorem mejor_angulo_fuera_de_rango_witness:
  "mejor_angulo 25 (1 / cos (radians 80)) = \<lparr>mejor_dist = 0, mejor_ang = 0\<rparr>"
  by (rule mejor_angulo_fuera_de_rango) simp

end
