(* ===== verification/Layout.thy ===== *)
theory Layout
  imports Search
begin

text \<open>
  The plot set-up of \<open>simular_salto\<close> (\<^verbatim>\<open>src/sky.py\<close> lines 81--107): the axis
  limits computed from the sweep's best distance and the trajectory's heights
  (lines 82--84), and the 400 points of the ramp drawn from \<open>x0\<close> to \<open>xmax\<close>
  (lines 97--98). \<open>np.min\<close>/\<open>np.max\<close> of the 300-element array \<open>y\<close> are
  \<^term>\<open>Min\<close>/\<^term>\<open>Max\<close> of its (non-empty) set of elements.
\<close>

record limites =
  xmax :: real
  ymin :: real
  ymax :: real

definition calcular_limites :: "busqueda \<Rightarrow> trayectoria \<Rightarrow> real \<Rightarrow> limites" where
  "calcular_limites b tr h =
     (let y = tray_y tr; y_land = last y
      in \<lparr>xmax = mejor_dist b + 20,
          ymin = min (Min (set y)) y_land - 20,
          ymax = max (h + 10) (Max (set y) + 10)\<rparr>)"

definition puntos_pista :: nat where
  "puntos_pista = 400"

definition dibujar_pista :: "real \<Rightarrow> real \<Rightarrow> real \<Rightarrow> real list \<times> real list" where
  "dibujar_pista h m x_max =
     (let x0 = 0; y0 = h; xpista = linspace x0 x_max puntos_pista
      in (xpista, map (pista y0 m x0) xpista))"

declare calcular_limites_def [sky_defs] puntos_pista_def [sky_defs] dibujar_pista_def [sky_defs]

subsection \<open>The trajectory inside the limits\<close>

lemma muestra_en_conjunto:
  assumes "calcular_trayectoria v0 angulo m h = Inr tr" and "i < num_muestras"
  shows "tray_y tr ! i \<in> set (tray_y tr)"
  using assms trayectoria_nth(5) [OF assms(1)] by simp

lemma limites_y_finito:
  assumes "calcular_trayectoria v0 angulo m h = Inr tr"
  shows "finite (set (tray_y tr))" and "set (tray_y tr) \<noteq> {}"
  using trayectoria_nth(5) [OF assms] num_muestras_pos by (auto simp: length_0_conv [symmetric])

text \<open>The engine and the sweep agree: a trajectory's landing distance is the sweep's
  \<open>alcance\<close> of its angle, and the angle is a valid one.\<close>

lemma trayectoria_alcance:
  assumes "calcular_trayectoria v0 angulo m h = Inr tr"
  shows "valido v0 m angulo \<and> fst (punto_aterrizaje tr) = alcance v0 m angulo"
  using trayectoria_nth(1,2) [OF assms] punto_aterrizaje_formula [OF assms]
  by (simp add: valido_def alcance_def Let_def)

lemma trayectoria_existe_valido:
  "valido v0 m angulo \<Longrightarrow> \<exists>tr. calcular_trayectoria v0 angulo m h = Inr tr"
  by (simp add: valido_def Let_def calcular_trayectoria_existe)

subsection \<open>Properties of the limits\<close>

text \<open>
  C27. Every height of the trajectory, the landing height among them, is strictly inside
  the vertical limits of lines 83--84: at least 20 above the bottom and 10 below the top.
\<close>

theorem limites_contienen_alturas:
  assumes tr: "calcular_trayectoria v0 angulo m h = Inr tr" and i: "i < num_muestras"
  shows "ymin (calcular_limites b tr h) < tray_y tr ! i \<and> tray_y tr ! i < ymax (calcular_limites b tr h)"
proof -
  have mem: "tray_y tr ! i \<in> set (tray_y tr)" by (rule muestra_en_conjunto [OF tr i])
  have "Min (set (tray_y tr)) \<le> tray_y tr ! i" and "tray_y tr ! i \<le> Max (set (tray_y tr))"
    using mem limites_y_finito [OF tr] by simp_all
  then show ?thesis by (simp add: calcular_limites_def Let_def min_def max_def)
qed

theorem limites_contienen_alturas_witness:
  "\<exists>tr. calcular_trayectoria 25 1 (-1) 20 = Inr tr \<and>
        ymin (calcular_limites (mejor_angulo 25 (-1)) tr 20) < tray_y tr ! 0 \<and>
        tray_y tr ! 0 < ymax (calcular_limites (mejor_angulo 25 (-1)) tr 20)"
proof -
  have "valido 25 (-1) 1" using valido_rampa_descendente [of 25 "-1" 1] by simp
  then obtain tr where tr: "calcular_trayectoria 25 1 (-1) 20 = Inr tr"
    using trayectoria_existe_valido by blast
  show ?thesis using tr limites_contienen_alturas [OF tr num_muestras_pos] by blast
qed

text \<open>
  C28. When the chosen angle is one of the swept angles and the speed is positive, every
  horizontal position of the trajectory is inside the horizontal range \<open>[0, xmax)\<close> of
  line 89: the flight moves forward and lands no farther than the best distance.
\<close>

theorem limites_contienen_abscisas:
  assumes tr: "calcular_trayectoria v0 angulo m h = Inr tr"
    and a: "angulo \<in> set angulos_prueba" and v0: "0 < v0" and i: "i < num_muestras"
  shows "0 \<le> tray_x tr ! i \<and> tray_x tr ! i < xmax (calcular_limites (mejor_angulo v0 m) tr h)"
proof -
  note T = trayectoria_nth [OF tr]
  have r: "-90 < angulo" "angulo < 90" using angulos_prueba_rango [OF a] by simp_all
  have "0 < cos (radians angulo)"
    using radians_rango [OF r] by (intro cos_gt_zero_pi) auto
  then have vx: "0 \<le> vel_x v0 (radians angulo)" using v0 by (simp add: vel_x_def)
  have t: "0 \<le> tray_t tr ! i \<and> tray_t tr ! i \<le> t_land tr" by (rule tiempo_muestra [OF tr i])
  have x: "tray_x tr ! i = vel_x v0 (radians angulo) * tray_t tr ! i"
    using T(7) [OF i] by (simp add: pos_x_def)
  have "tray_x tr ! i \<le> vel_x v0 (radians angulo) * t_land tr"
    unfolding x using vx t by (simp add: mult_left_mono)
  also have "\<dots> = alcance v0 m angulo"
    using trayectoria_alcance [OF tr] punto_aterrizaje_formula [OF tr] by (simp add: pos_x_def)
  also have "\<dots> \<le> mejor_dist (mejor_angulo v0 m)"
    using trayectoria_alcance [OF tr] a
    by (simp add: mejor_angulo_def recorrer_dist fold_max_ge_elem)
  finally have "tray_x tr ! i < mejor_dist (mejor_angulo v0 m) + 20" by simp
  moreover have "0 \<le> tray_x tr ! i" unfolding x using vx t by simp
  ultimately show ?thesis by (simp add: calcular_limites_def Let_def)
qed

theorem limites_contienen_abscisas_witness:
  "\<exists>tr. calcular_trayectoria 25 1 (-1) 20 = Inr tr \<and>
        0 \<le> tray_x tr ! 0 \<and> tray_x tr ! 0 < xmax (calcular_limites (mejor_angulo 25 (-1)) tr 20)"
proof -
  have "valido 25 (-1) 1" using valido_rampa_descendente [of 25 "-1" 1] by simp
  then obtain tr where tr: "calcular_trayectoria 25 1 (-1) 20 = Inr tr"
    using trayectoria_existe_valido by blast
  have "0 \<le> tray_x tr ! 0 \<and> tray_x tr ! 0 < xmax (calcular_limites (mejor_angulo 25 (-1)) tr 20)"
    by (rule limites_contienen_abscisas [OF tr angulos_prueba_primero]) simp_all
  with tr show ?thesis by blast
qed

end
