(* ===== verification/Entrada.thy ===== *)
theory Entrada
  imports Prelude "HOL-Library.Monad_Syntax"
begin

text \<open>
  The text interface of \<^verbatim>\<open>src/sky.py\<close>: Python's \<open>float()\<close>, which
  \<open>simular_salto\<close> applies to the text of each entry field (lines 32--35), and the
  format specification \<open>:.2f\<close> with which it writes the three numbers of the result
  label (line 125). A string is a list of \<^typ>\<open>char\<close>, read as the Unicode code points
  0--255 of the Python string; higher code points are not represented.

  \<^item> \<open>float_py\<close> follows CPython's \<open>PyFloat_FromString\<close>: first
    \<open>_Py_string_to_number_with_underscores\<close> (\<open>quitar_guiones\<close>: an underscore
    is allowed only between two ASCII digits, and is dropped), then
    \<open>float_from_string_inner\<close> (\<open>recortar\<close>: leading and trailing whitespace
    removed), then \<open>_PyOS_ascii_strtod\<close>: an optional sign, then \<open>inf\<close>,
    \<open>infinity\<close> or \<open>nan\<close> in any case (\<open>igual_sin_mayusculas\<close>), or a decimal
    number with at least one digit, an optional point and an optional exponent
    (\<open>leer_decimal\<close>), which must use up the whole string. \<open>None\<close> is the
    \<open>ValueError\<close>.
  \<^item> The result is a \<open>flotante\<close>: a finite value (a \<^typ>\<open>real\<close>, without the
    rounding to the nearest double), an infinity, or NaN. The one rounding effect that
    changes the class of the result, overflow, is modelled: a literal of magnitude at
    least \<open>desborde\<close> reads as an infinity, so \<open>'1e400'\<close> is \<open>inf\<close>, not an error.
  \<^item> \<open>formato_2f\<close> is \<open>format(x, '.2f')\<close>: \<open>100 x\<close> rounded half to even
    (\<open>redondeo_par\<close>), printed as a minus sign for negative \<open>x\<close>, the integer
    digits, a point and two digits.
\<close>

text \<open>The value \<open>float()\<close> returns: a finite float, \<open>inf\<close> (\<open>True\<close> for
  \<open>-inf\<close>) or \<open>nan\<close>.\<close>

datatype flotante = Finito real | Infinito bool | NoNumero

subsection \<open>\<open>float()\<close> on a string\<close>

text \<open>Character classes: ASCII digits, and Python's whitespace (\<open>str.isspace\<close>) among the
  code points below 256.\<close>

definition es_digito :: "char \<Rightarrow> bool" where
  "es_digito c \<longleftrightarrow> (let n = (of_char c :: nat) in 48 \<le> n \<and> n \<le> 57)"

definition valor_digito :: "char \<Rightarrow> nat" where
  "valor_digito c = of_char c - 48"

definition es_espacio :: "char \<Rightarrow> bool" where
  "es_espacio c \<longleftrightarrow>
     (let n = (of_char c :: nat) in (9 \<le> n \<and> n \<le> 13) \<or> (28 \<le> n \<and> n \<le> 32) \<or> n = 133 \<or> n = 160)"

definition igual_sin_mayusculas :: "string \<Rightarrow> string \<Rightarrow> bool" where
  "igual_sin_mayusculas s p \<longleftrightarrow>
     list_all2 (\<lambda>c d. let a = (of_char c :: nat); b = of_char d
                      in a = b \<or> (97 \<le> b \<and> b \<le> 122 \<and> a + 32 = b)) s p"

text \<open>\<open>_Py_string_to_number_with_underscores\<close>: \<open>prev\<close> starts as \<open>'\0'\<close>;
  an underscore must follow a digit and be followed by one; underscores are dropped.\<close>

fun quitar_guiones :: "char \<Rightarrow> string \<Rightarrow> string option" where
  "quitar_guiones prev [] = (if prev = CHR ''_'' then None else Some [])"
| "quitar_guiones prev (c # cs) =
     (if c = CHR ''_'' then (if es_digito prev then quitar_guiones c cs else None)
      else if prev = CHR ''_'' \<and> \<not> es_digito c then None
      else map_option (Cons c) (quitar_guiones c cs))"

text \<open>\<open>float_from_string_inner\<close>: leading and trailing whitespace is stripped.\<close>

definition recortar :: "string \<Rightarrow> string" where
  "recortar s = rev (dropWhile es_espacio (rev (dropWhile es_espacio s)))"

definition valor_digitos :: "string \<Rightarrow> nat" where
  "valor_digitos ds = foldl (\<lambda>n c. 10 * n + valor_digito c) 0 ds"

text \<open>\<open>_PyOS_ascii_strtod\<close> and \<open>_Py_dg_strtod\<close>: sign, digits, point, exponent.\<close>

definition leer_signo :: "string \<Rightarrow> bool \<times> string" where
  "leer_signo s =
     (case s of
        c # r \<Rightarrow> if c = CHR ''-'' then (True, r) else if c = CHR ''+'' then (False, r) else (False, s)
      | [] \<Rightarrow> (False, []))"

definition leer_exponente :: "string \<Rightarrow> int option" where
  "leer_exponente s =
     (case s of
        [] \<Rightarrow> Some 0
      | c # r \<Rightarrow>
          if c = CHR ''e'' \<or> c = CHR ''E'' then
            (let (neg, ds) = leer_signo r
             in if ds \<noteq> [] \<and> list_all es_digito ds
                then Some (if neg then - int (valor_digitos ds) else int (valor_digitos ds))
                else None)
          else None)"

definition leer_decimal :: "string \<Rightarrow> real option" where
  "leer_decimal s =
     (let a = takeWhile es_digito s; r = dropWhile es_digito s;
          (b, r') = (case r of
                       c # r1 \<Rightarrow> if c = CHR ''.'' then (takeWhile es_digito r1, dropWhile es_digito r1)
                                 else ([], r)
                     | [] \<Rightarrow> ([], []))
      in if a = [] \<and> b = [] then None
         else map_option (\<lambda>e. real (valor_digitos (a @ b)) * 10 powi (e - int (length b)))
                         (leer_exponente r'))"

text \<open>Rounding to a double overflows to infinity from the midpoint between the largest
  finite double \<open>(2 - 2\<^sup>-\<^sup>5\<^sup>2) 2\<^sup>1\<^sup>0\<^sup>2\<^sup>3\<close> and \<open>2\<^sup>1\<^sup>0\<^sup>2\<^sup>4\<close> on (ties to even).\<close>

definition desborde :: real where
  "desborde = 2 ^ 1024 - 2 ^ 970"

definition a_flotante :: "real \<Rightarrow> flotante" where
  "a_flotante v = (if desborde \<le> \<bar>v\<bar> then Infinito (v < 0) else Finito v)"

text \<open>\<open>PyFloat_FromString\<close>: \<open>None\<close> is the \<open>ValueError\<close> that the
  \<open>except\<close> of line 36 catches.\<close>

definition float_py :: "string \<Rightarrow> flotante option" where
  "float_py s =
     do {
       s' \<leftarrow> quitar_guiones (CHR 0x00) s;
       let (neg, r) = leer_signo (recortar s');
       if igual_sin_mayusculas r ''inf'' \<or> igual_sin_mayusculas r ''infinity'' then Some (Infinito neg)
       else if igual_sin_mayusculas r ''nan'' then Some NoNumero
       else map_option (\<lambda>v. a_flotante (if neg then - v else v)) (leer_decimal r)
     }"

text \<open>Python's unary minus on a float (line 34: \<open>m = -float(...)\<close>); \<open>-nan\<close> is a NaN.\<close>

definition negar_flotante :: "flotante \<Rightarrow> flotante" where
  "negar_flotante f = (case f of Finito r \<Rightarrow> Finito (- r) | Infinito s \<Rightarrow> Infinito (\<not> s) | NoNumero \<Rightarrow> NoNumero)"

text \<open>The four values read, when all of them are finite: the inputs the real-valued model of
  the physics takes.\<close>

fun valores_finitos :: "flotante \<times> flotante \<times> flotante \<times> flotante \<Rightarrow> (real \<times> real \<times> real \<times> real) option" where
  "valores_finitos (Finito v0, Finito angulo, Finito m, Finito h) = Some (v0, angulo, m, h)"
| "valores_finitos _ = None"

subsection \<open>The format specification \<open>:.2f\<close>\<close>

definition digito_char :: "nat \<Rightarrow> char" where
  "digito_char d = ''0123456789'' ! d"

fun digitos_nat :: "nat \<Rightarrow> string" where
  "digitos_nat n =
     (if n < 10 then [digito_char n] else digitos_nat (n div 10) @ [digito_char (n mod 10)])"

text \<open>\<open>PyOS_double_to_string(x, 'f', 2)\<close> is correctly rounded, ties to even.\<close>

definition redondeo_par :: "real \<Rightarrow> int" where
  "redondeo_par y =
     (let f = \<lfloor>y\<rfloor>; d = y - of_int f
      in if d < 1 / 2 then f else if 1 / 2 < d then f + 1 else if even f then f else f + 1)"

definition formato_2f :: "real \<Rightarrow> string" where
  "formato_2f x =
     (let n = redondeo_par (100 * x); a = nat \<bar>n\<bar>; c = a mod 100
      in (if x < 0 then ''-'' else []) @ digitos_nat (a div 100) @
         [CHR ''.'', digito_char (c div 10), digito_char (c mod 10)])"

text \<open>Reference for the underscore rule, as PEP 515 states it: every underscore stands
  between two digits (the character before the first one being \<open>prev\<close>).\<close>

definition guiones_validos :: "char \<Rightarrow> string \<Rightarrow> bool" where
  "guiones_validos prev s \<longleftrightarrow>
     (\<forall>i < length s. s ! i = CHR ''_'' \<longrightarrow>
        es_digito ((prev # s) ! i) \<and> Suc i < length s \<and> es_digito (s ! Suc i))"

declare float_py_def [sky_defs] leer_decimal_def [sky_defs] leer_signo_def [sky_defs]
  recortar_def [sky_defs] es_espacio_def [sky_defs] es_digito_def [sky_defs]
  valor_digitos_def [sky_defs] valor_digito_def [sky_defs] leer_exponente_def [sky_defs]
  a_flotante_def [sky_defs] desborde_def [sky_defs] igual_sin_mayusculas_def [sky_defs]
  digito_char_def [sky_defs] redondeo_par_def [sky_defs] formato_2f_def [sky_defs]
  negar_flotante_def [sky_defs]

declare digitos_nat.simps [simp del]

subsection \<open>Digits and numbers\<close>

lemma digito_char_es_digito: "d < 10 \<Longrightarrow> es_digito (digito_char d)"
  by (auto simp: digito_char_def es_digito_def less_Suc_eq numeral_eq_Suc)

lemma valor_digito_char: "d < 10 \<Longrightarrow> valor_digito (digito_char d) = d"
  by (auto simp: digito_char_def valor_digito_def less_Suc_eq numeral_eq_Suc)

lemma digitos_nat_digitos: "list_all es_digito (digitos_nat n) \<and> digitos_nat n \<noteq> []"
proof (induction n rule: digitos_nat.induct)
  case (1 n)
  then show ?case by (simp add: digitos_nat.simps [of n] digito_char_es_digito)
qed

lemma valor_digitos_append:
  "valor_digitos (xs @ ys) = valor_digitos xs * 10 ^ length ys + valor_digitos ys"
proof (induction ys rule: rev_induct)
  case Nil
  then show ?case by (simp add: valor_digitos_def)
next
  case (snoc y ys)
  then show ?case by (simp add: valor_digitos_def algebra_simps flip: append_assoc)
qed

lemma valor_digitos_nat: "valor_digitos (digitos_nat n) = n"
proof (induction n rule: digitos_nat.induct)
  case (1 n)
  show ?case
  proof (cases "n < 10")
    case True
    then show ?thesis
      by (subst digitos_nat.simps) (simp add: valor_digitos_def valor_digito_char)
  next
    case False
    with 1 show ?thesis
      by (subst digitos_nat.simps) (simp add: valor_digitos_append valor_digitos_def valor_digito_char)
  qed
qed

subsection \<open>Rounding\<close>

lemma redondeo_par_cerca: "\<bar>of_int (redondeo_par y) - y\<bar> \<le> 1 / 2"
  unfolding redondeo_par_def Let_def
  using of_int_floor_le [of y] real_of_int_floor_add_one_gt [of y] by auto

lemma redondeo_par_signo:
  "(y < 0 \<longrightarrow> redondeo_par y \<le> 0) \<and> (0 \<le> y \<longrightarrow> 0 \<le> redondeo_par y)"
  unfolding redondeo_par_def Let_def
  using of_int_floor_le [of y] real_of_int_floor_add_one_gt [of y] floor_less_zero [of y]
  by (auto simp: floor_less_iff)

subsection \<open>The stages of the parser\<close>

lemma quitar_guiones_sin:
  "CHR ''_'' \<notin> set s \<Longrightarrow> prev \<noteq> CHR ''_'' \<Longrightarrow> quitar_guiones prev s = Some s"
  by (induction s arbitrary: prev) auto

lemma recortar_id:
  assumes "s \<noteq> []" and "\<not> es_espacio (hd s)" and "\<not> es_espacio (last s)"
  shows "recortar s = s"
proof -
  have "dropWhile es_espacio s = s" using assms(1,2) by (cases s) auto
  moreover have "dropWhile es_espacio (rev s) = rev s"
    using assms(1,3) by (cases "rev s") (auto simp flip: last_rev)
  ultimately show ?thesis by (simp add: recortar_def)
qed

lemma digito_no_espacio: "es_digito c \<Longrightarrow> \<not> es_espacio c"
  by (simp add: es_digito_def es_espacio_def Let_def)

lemma digito_no_palabra:
  "es_digito c \<Longrightarrow> 97 \<le> (of_char d :: nat) \<Longrightarrow> \<not> igual_sin_mayusculas (c # t) (d # p)"
  by (auto simp: es_digito_def igual_sin_mayusculas_def Let_def)

lemma leer_decimal_punto:
  assumes "ds \<noteq> []" and "list_all es_digito ds" and "list_all es_digito fs"
  shows "leer_decimal (ds @ CHR ''.'' # fs) =
         Some (real (valor_digitos (ds @ fs)) * 10 powi (- int (length fs)))"
proof -
  have p: "\<not> es_digito (CHR ''.'')" by (simp add: es_digito_def)
  have a: "takeWhile es_digito (ds @ CHR ''.'' # fs) = ds"
    "dropWhile es_digito (ds @ CHR ''.'' # fs) = CHR ''.'' # fs"
    using assms(2) p by (simp_all add: takeWhile_append2 dropWhile_append2 list_all_iff)
  have f: "takeWhile es_digito fs = fs" "dropWhile es_digito fs = []"
    using assms(3) by (simp_all add: list_all_iff)
  show ?thesis using assms(1) by (simp add: leer_decimal_def leer_exponente_def a f)
qed

lemma valor_dos_digitos:
  "c < 100 \<Longrightarrow> valor_digitos [digito_char (c div 10), digito_char (c mod 10)] = c"
  by (simp add: valor_digitos_def valor_digito_char less_mult_imp_div_less)

text \<open>A plain decimal literal, with or without a minus sign, reads as its value.\<close>

lemma float_py_numero:
  assumes ds: "ds \<noteq> []" "list_all es_digito ds" and fs: "list_all es_digito fs"
  shows "float_py ((if neg then ''-'' else []) @ ds @ CHR ''.'' # fs) =
         Some (a_flotante (if neg then - (real (valor_digitos (ds @ fs)) / 10 ^ length fs)
                           else real (valor_digitos (ds @ fs)) / 10 ^ length fs))"
proof -
  define s where "s = (if neg then ''-'' else []) @ ds @ CHR ''.'' # fs"
  have "\<not> es_digito (CHR ''_'')" by (simp add: es_digito_def)
  then have "CHR ''_'' \<notin> set s"
    using ds(2) fs unfolding s_def by (auto simp: list_all_iff)
  then have q: "quitar_guiones (CHR 0x00) s = Some s" by (simp add: quitar_guiones_sin)
  obtain d ds' where d: "ds = d # ds'" "es_digito d" using ds by (cases ds) auto
  have "\<not> es_espacio (CHR ''.'')" by (simp add: es_espacio_def)
  then have ultimo: "\<not> es_espacio (last (CHR ''.'' # fs))"
    using fs by (cases fs rule: rev_cases) (auto simp: digito_no_espacio)
  have menos: "\<not> es_espacio (CHR ''-'')" by (simp add: es_espacio_def)
  have r: "recortar s = s"
    using d ultimo menos unfolding s_def by (intro recortar_id) (auto simp: digito_no_espacio)
  have signo: "leer_signo s = (neg, ds @ CHR ''.'' # fs)"
    using d by (auto simp: s_def leer_signo_def es_digito_def)
  have pal: "\<not> igual_sin_mayusculas (ds @ CHR ''.'' # fs) ''inf''"
    "\<not> igual_sin_mayusculas (ds @ CHR ''.'' # fs) ''infinity''"
    "\<not> igual_sin_mayusculas (ds @ CHR ''.'' # fs) ''nan''"
    using digito_no_palabra [OF d(2)] by (simp_all add: d(1))
  have dec: "leer_decimal (ds @ CHR ''.'' # fs) = Some (real (valor_digitos (ds @ fs)) / 10 ^ length fs)"
    using leer_decimal_punto [OF ds fs] by (simp add: power_int_minus divide_inverse)
  show ?thesis
    unfolding s_def [symmetric] float_py_def q Option.bind.simps r signo Let_def prod.case
    using pal dec by simp
qed

lemma leer_formato_2f:
  "float_py (formato_2f x) = Some (a_flotante (of_int (redondeo_par (100 * x)) / 100))"
proof -
  define n where "n = redondeo_par (100 * x)"
  define a where "a = nat \<bar>n\<bar>"
  define ds where "ds = digitos_nat (a div 100)"
  define fs where "fs = [digito_char (a mod 100 div 10), digito_char (a mod 100 mod 10)]"
  have ds: "ds \<noteq> []" "list_all es_digito ds" using digitos_nat_digitos by (simp_all add: ds_def)
  have fs: "list_all es_digito fs"
    by (simp add: fs_def digito_char_es_digito less_mult_imp_div_less)
  have f: "formato_2f x = (if x < 0 then ''-'' else []) @ ds @ CHR ''.'' # fs"
    by (simp add: formato_2f_def Let_def n_def a_def ds_def fs_def)
  have valor: "real (valor_digitos (ds @ fs)) / 10 ^ length fs = real a / 100"
    by (simp add: valor_digitos_append ds_def fs_def valor_digitos_nat valor_dos_digitos)
  have sg: "(if x < 0 then - (real a / 100) else real a / 100) = of_int n / 100"
    using redondeo_par_signo [of "100 * x"] by (auto simp: a_def n_def)
  show ?thesis
    unfolding f float_py_numero [OF ds fs] valor sg n_def ..
qed

lemma desborde_grande: "10 ^ 300 + 1 < desborde"
  by (simp add: desborde_def)

lemma a_flotante_finito: "\<bar>v\<bar> < desborde \<Longrightarrow> a_flotante v = Finito v"
  by (simp add: a_flotante_def)

lemma redondeo_2f_cerca: "\<bar>of_int (redondeo_par (100 * x)) / 100 - x\<bar> \<le> 1 / 200"
proof -
  have "\<bar>of_int (redondeo_par (100 * x)) - 100 * x\<bar> \<le> 1 / 2" by (rule redondeo_par_cerca)
  then show ?thesis by (simp add: abs_le_iff field_simps)
qed

lemma formato_2f_lee:
  assumes "\<bar>x\<bar> \<le> 10 ^ 300"
  shows "float_py (formato_2f x) = Some (Finito (of_int (redondeo_par (100 * x)) / 100))"
proof -
  have "\<bar>of_int (redondeo_par (100 * x)) / 100 :: real\<bar> < desborde"
    using redondeo_2f_cerca [of x] assms desborde_grande by linarith
  then show ?thesis by (simp add: leer_formato_2f a_flotante_finito)
qed

lemma formato_2f_legible:
  "\<bar>x\<bar> \<le> 10 ^ 300 \<Longrightarrow> \<exists>v. float_py (formato_2f x) = Some (Finito v) \<and> \<bar>v - x\<bar> \<le> 1 / 200"
  using formato_2f_lee redondeo_2f_cerca by blast

lemma valores_finitos_Some:
  "valores_finitos vs = Some (v0, angulo, m, h) \<longleftrightarrow>
   vs = (Finito v0, Finito angulo, Finito m, Finito h)"
  by (cases vs rule: valores_finitos.cases) auto

subsection \<open>Properties of the text interface\<close>

text \<open>
  C9. Printing with \<open>:.2f\<close> and reading back with \<open>float()\<close> is a round trip up to
  the rounding: the text reads as the value rounded half-to-even to two decimals, which
  is within 0.005 of the printed value (for every magnitude up to \<open>10\<^sup>3\<^sup>0\<^sup>0\<close>, far
  from the overflow).
\<close>

theorem formato_2f_ida_vuelta:
  assumes "\<bar>x\<bar> \<le> 10 ^ 300"
  shows "float_py (formato_2f x) = Some (Finito (of_int (redondeo_par (100 * x)) / 100)) \<and>
         \<bar>of_int (redondeo_par (100 * x)) / 100 - x\<bar> \<le> 1 / 200"
  using formato_2f_lee [OF assms] redondeo_2f_cerca by simp

theorem formato_2f_ida_vuelta_witness:
  "float_py (formato_2f (2675 / 1000)) = Some (Finito (268 / 100))"
proof -
  have "redondeo_par (100 * (2675 / 1000)) = 268"
  proof -
    have "\<lfloor>535 / 2 :: real\<rfloor> = 267" by (simp add: floor_eq_iff)
    then show ?thesis by (simp add: redondeo_par_def)
  qed
  then show ?thesis using formato_2f_ida_vuelta [of "2675 / 1000"] by simp
qed

lemma guiones_validos_Cons:
  "guiones_validos prev (c # cs) \<longleftrightarrow>
   (c = CHR ''_'' \<longrightarrow> es_digito prev \<and> cs \<noteq> [] \<and> es_digito (hd cs)) \<and> guiones_validos c cs"
  by (auto simp: guiones_validos_def All_less_Suc2 hd_conv_nth)

lemma quitar_guiones_Some:
  "quitar_guiones prev s = Some t \<longleftrightarrow>
   (prev = CHR ''_'' \<longrightarrow> s \<noteq> [] \<and> es_digito (hd s)) \<and> guiones_validos prev s \<and>
   t = filter (\<lambda>c. c \<noteq> CHR ''_'') s"
proof (induction s arbitrary: prev t)
  case Nil
  then show ?case by (auto simp: guiones_validos_def)
next
  case (Cons c cs)
  have nd: "\<not> es_digito (CHR ''_'')" by (simp add: es_digito_def)
  show ?case
  proof (cases "c = CHR ''_''")
    case True
    then show ?thesis using Cons.IH [of c] nd by (auto simp: guiones_validos_Cons)
  next
    case False
    then show ?thesis using Cons.IH [of c] nd by (auto simp: guiones_validos_Cons)
  qed
qed

text \<open>The words \<open>inf\<close>, \<open>infinity\<close>, \<open>nan\<close> in any case are letters only.\<close>

lemma igual_sin_mayusculas_letra:
  assumes "igual_sin_mayusculas r p" and "list_all (\<lambda>d. 97 \<le> (of_char d :: nat) \<and> (of_char d :: nat) \<le> 122) p"
    and "c \<in> set r"
  shows "(65 \<le> (of_char c :: nat) \<and> (of_char c :: nat) \<le> 90) \<or> (97 \<le> (of_char c :: nat) \<and> (of_char c :: nat) \<le> 122)"
proof -
  obtain i where i: "i < length r" "r ! i = c" using assms(3) by (auto simp: in_set_conv_nth)
  have len: "length r = length p" using assms(1) by (simp add: igual_sin_mayusculas_def list_all2_lengthD)
  have a: "let a = (of_char (r ! i) :: nat); b = of_char (p ! i) in a = b \<or> (97 \<le> b \<and> b \<le> 122 \<and> a + 32 = b)"
    using list_all2_nthD [OF assms(1) [unfolded igual_sin_mayusculas_def] i(1)] .
  have b: "97 \<le> (of_char (p ! i) :: nat) \<and> (of_char (p ! i) :: nat) \<le> 122"
    using assms(2) i(1) len by (simp add: list_all_length)
  show ?thesis using a b i(2) by (auto simp: Let_def)
qed

lemma palabra_no_numerica:
  assumes "igual_sin_mayusculas r p" and "p \<in> {''inf'', ''infinity'', ''nan''}"
  shows "r \<noteq> []" and "CHR ''_'' \<notin> set r" and "\<not> es_espacio (hd r)" and "\<not> es_espacio (last r)"
    and "hd r \<noteq> CHR ''-''" and "hd r \<noteq> CHR ''+''"
proof -
  have l: "list_all (\<lambda>d. 97 \<le> (of_char d :: nat) \<and> (of_char d :: nat) \<le> 122) p" using assms(2) by auto
  show ne: "r \<noteq> []"
    using assms by (auto simp: igual_sin_mayusculas_def dest: list_all2_lengthD)
  have letra: "(65 \<le> (of_char c :: nat) \<and> (of_char c :: nat) \<le> 90) \<or> (97 \<le> (of_char c :: nat) \<and> (of_char c :: nat) \<le> 122)"
    if "c \<in> set r" for c
    using igual_sin_mayusculas_letra [OF assms(1) l that] .
  show "CHR ''_'' \<notin> set r" using letra [of "CHR ''_''"] by auto
  show "\<not> es_espacio (hd r)" using letra [of "hd r"] ne by (auto simp: es_espacio_def)
  show "\<not> es_espacio (last r)" using letra [of "last r"] ne by (auto simp: es_espacio_def)
  show "hd r \<noteq> CHR ''-''" using letra [of "hd r"] ne by auto
  show "hd r \<noteq> CHR ''+''" using letra [of "hd r"] ne by auto
qed

lemma nan_no_inf:
  "igual_sin_mayusculas r ''nan'' \<Longrightarrow>
   \<not> igual_sin_mayusculas r ''inf'' \<and> \<not> igual_sin_mayusculas r ''infinity''"
  by (cases r) (auto simp: igual_sin_mayusculas_def Let_def dest: list_all2_lengthD)

lemma float_py_palabra:
  assumes "igual_sin_mayusculas r p" and "p \<in> {''inf'', ''infinity'', ''nan''}"
  shows "float_py ((if neg then ''-'' else []) @ r) =
         Some (if igual_sin_mayusculas r ''nan'' then NoNumero else Infinito neg)"
proof -
  note w = palabra_no_numerica [OF assms]
  define s where "s = (if neg then ''-'' else []) @ r"
  have q: "quitar_guiones (CHR 0x00) s = Some s" using w(2) by (simp add: s_def quitar_guiones_sin)
  have menos: "\<not> es_espacio (CHR ''-'')" by (simp add: es_espacio_def)
  have r: "recortar s = s" using w(1,3,4) menos unfolding s_def by (intro recortar_id) auto
  have signo: "leer_signo s = (neg, r)"
    using w(1,5,6) by (cases r) (auto simp: s_def leer_signo_def)
  show ?thesis
    unfolding s_def [symmetric] float_py_def q Option.bind.simps r signo Let_def prod.case
    using assms nan_no_inf [of r] by auto
qed

text \<open>
  C21. A decimal literal \<open>ds.fs\<close>, optionally negated, is accepted by \<open>float()\<close> and
  reads as the digits \<open>ds fs\<close> divided by 10 to the number of digits of \<open>fs\<close>
  (an infinity when that is beyond \<open>desborde\<close>).
\<close>

theorem float_py_decimal:
  assumes "ds \<noteq> []" and "list_all es_digito ds" and "list_all es_digito fs"
  shows "float_py (ds @ CHR ''.'' # fs) =
           Some (a_flotante (real (valor_digitos (ds @ fs)) / 10 ^ length fs)) \<and>
         float_py (CHR ''-'' # ds @ CHR ''.'' # fs) =
           Some (a_flotante (- (real (valor_digitos (ds @ fs)) / 10 ^ length fs)))"
  using float_py_numero [OF assms, of False] float_py_numero [OF assms, of True] by simp

theorem float_py_decimal_witness:
  "float_py (''22'' @ CHR ''.'' # ''8'') = Some (Finito (228 / 10))"
  using float_py_decimal [of "''22''" "''8''"]
  by (simp add: es_digito_def valor_digitos_def valor_digito_def a_flotante_def desborde_def)

text \<open>
  C19. \<open>float()\<close> does not reject the words \<open>inf\<close>, \<open>infinity\<close> and
  \<open>nan\<close>, in any mix of cases and with or without a minus sign: it returns an
  infinity or NaN, so the \<open>except ValueError\<close> of line 36 is not taken for them.
\<close>

theorem float_py_no_finito:
  assumes "igual_sin_mayusculas r ''inf'' \<or> igual_sin_mayusculas r ''infinity'' \<or>
           igual_sin_mayusculas r ''nan''"
  shows "float_py r = Some (if igual_sin_mayusculas r ''nan'' then NoNumero else Infinito False) \<and>
         float_py (CHR ''-'' # r) =
           Some (if igual_sin_mayusculas r ''nan'' then NoNumero else Infinito True)"
proof -
  obtain p where p: "igual_sin_mayusculas r p" "p \<in> {''inf'', ''infinity'', ''nan''}"
    using assms by blast
  show ?thesis using float_py_palabra [OF p, of False] float_py_palabra [OF p, of True] by simp
qed

theorem float_py_no_finito_witness:
  "float_py (CHR ''-'' # ''InFinity'') = Some (Infinito True) \<and> float_py ''NaN'' = Some NoNumero"
  using float_py_no_finito [of "''InFinity''"] float_py_no_finito [of "''NaN''"]
  by (simp add: igual_sin_mayusculas_def)

text \<open>
  C20. The underscore pass accepts a string exactly when each underscore stands between
  two digits, and then returns the string without its underscores.
\<close>

theorem guiones_equivale:
  "quitar_guiones (CHR 0x00) s = Some t \<longleftrightarrow>
   guiones_validos (CHR 0x00) s \<and> t = filter (\<lambda>c. c \<noteq> CHR ''_'') s"
  by (simp add: quitar_guiones_Some)

theorem guiones_equivale_witness:
  "quitar_guiones (CHR 0x00) ''1_000'' = Some ''1000''"
  using guiones_equivale [of "''1_000''" "''1000''"]
  by (simp add: guiones_validos_def es_digito_def All_less_Suc2 numeral_eq_Suc)

lemma leer_decimal_sin_digitos: "\<not> list_ex es_digito r \<Longrightarrow> leer_decimal r = None"
proof -
  assume n: "\<not> list_ex es_digito r"
  have a: "takeWhile es_digito r = []" using n by (cases r) (auto simp: list_ex_iff)
  have b: "takeWhile es_digito r1 = []" if "r = c # r1" for c r1
    using n that by (cases r1) (auto simp: list_ex_iff)
  show ?thesis using a b by (cases r) (auto simp: leer_decimal_def Let_def)
qed

lemma recortar_subset: "set (recortar s) \<subseteq> set s"
  unfolding recortar_def by (metis set_dropWhileD set_rev subsetI)

lemma leer_signo_subset: "set (snd (leer_signo s)) \<subseteq> set s"
  by (cases s) (auto simp: leer_signo_def)



end

