(* ===== verification/Shell.thy ===== *)
theory Shell
  imports Layout Entrada
begin

text \<open>
  The window of \<^verbatim>\<open>src/sky.py\<close> as a state machine. The state \<open>ventana\<close> holds
  what the program's globals and widgets hold: the texts of the four entry fields, the state of
  \<open>btn_simular\<close>, the text of \<open>label_resultado\<close>, the canvas (axes limits, ramp,
  landing marker, trajectory line \<open>linea_trayectoria\<close>, sprite \<open>esquiador\<close>), the
  running \<open>FuncAnimation\<close> \<open>ani\<close> with its next frame, and whether the
  \<open>ventana.after\<close> call of line 119 is still pending. The handlers are
  \<open>simular_salto\<close> (lines 26--39, reading the fields with \<open>float_py\<close>) with
  \<open>lanzar\<close> (lines 41--126), \<open>actualizar\<close> (lines 110--113, one call per
  animation frame) and \<open>on_animation_end\<close> (lines 115--116); \<open>paso\<close> is the event
  loop's step relation, in which frames and the timer may interleave in any order.
\<close>

datatype etiqueta =
    EtiquetaVacia
  | EtiquetaError salto_error
  | EtiquetaResultado string string string

record lienzo =
  fondo_visible :: bool
  lim_x :: "real \<times> real"
  lim_y :: "real \<times> real"
  pista_dibujada :: "(real list \<times> real list) option"
  marca_aterrizaje :: "punto option"
  linea :: "punto list"
  esquiador :: "punto option"

record animacion =
  anim_x :: "real list"
  anim_y :: "real list"
  anim_frames :: nat
  fotograma :: nat

record ventana =
  campo_velocidad :: string
  campo_angulo :: string
  campo_pendiente :: string
  campo_altura :: string
  boton_activo :: bool
  etiqueta :: etiqueta
  grafico :: lienzo
  ani :: "animacion option"
  fin_pendiente :: bool

datatype campo = Velocidad | Angulo | Pendiente | Altura

text \<open>Lines 11--22: the axes show the background image over its extent, with no line and no sprite.\<close>

definition lienzo_inicial :: lienzo where
  "lienzo_inicial =
     \<lparr>fondo_visible = True, lim_x = (-50, 120), lim_y = (-10, 40), pista_dibujada = None,
      marca_aterrizaje = None, linea = [], esquiador = None\<rparr>"

text \<open>Lines 130--161: the entries hold "25", "22.8", "1" and "20"; the label is empty.\<close>

definition ventana_inicial :: ventana where
  "ventana_inicial =
     \<lparr>campo_velocidad = ''25'', campo_angulo = ''22.8'', campo_pendiente = ''1'',
      campo_altura = ''20'', boton_activo = True, etiqueta = EtiquetaVacia,
      grafico = lienzo_inicial, ani = None, fin_pendiente = False\<rparr>"

definition editar :: "campo \<Rightarrow> string \<Rightarrow> ventana \<Rightarrow> ventana" where
  "editar c s w =
     (case c of
        Velocidad \<Rightarrow> w\<lparr>campo_velocidad := s\<rparr>
      | Angulo \<Rightarrow> w\<lparr>campo_angulo := s\<rparr>
      | Pendiente \<Rightarrow> w\<lparr>campo_pendiente := s\<rparr>
      | Altura \<Rightarrow> w\<lparr>campo_altura := s\<rparr>)"

text \<open>Lines 31--35: the four \<open>float()\<close> calls in order, the slope negated; the first
  \<open>ValueError\<close> ends the \<open>try\<close> block (\<open>None\<close>).\<close>

definition leer_campos :: "ventana \<Rightarrow> (flotante \<times> flotante \<times> flotante \<times> flotante) option" where
  "leer_campos w =
     do {
       v0 \<leftarrow> float_py (campo_velocidad w);
       angulo \<leftarrow> float_py (campo_angulo w);
       p \<leftarrow> float_py (campo_pendiente w);
       h \<leftarrow> float_py (campo_altura w);
       Some (v0, angulo, negar_flotante p, h)
     }"

text \<open>Lines 41--126, the launch on real inputs: the no-intersection return (lines 53--56),
  or the plot set-up, the animation, the \<open>after\<close> timer and the result label, whose
  three numbers are written with \<open>:.2f\<close> (line 125).\<close>

definition lanzar :: "ventana \<Rightarrow> real \<times> real \<times> real \<times> real \<Rightarrow> ventana" where
  "lanzar w1 p =
     (case p of (v0, angulo, m, h) \<Rightarrow>
       (case calcular_trayectoria v0 angulo m h of
          Inl e \<Rightarrow> w1\<lparr>etiqueta := EtiquetaError e, boton_activo := True\<rparr>
        | Inr tr \<Rightarrow>
            (let x = tray_x tr; y = tray_y tr;
                 (x_land, y_land) = punto_aterrizaje tr;
                 b = mejor_angulo v0 m;
                 L = calcular_limites b tr h;
                 distancia = x_land - 0
             in w1\<lparr>grafico :=
                     \<lparr>fondo_visible = False, lim_x = (0, xmax L), lim_y = (ymin L, ymax L),
                      pista_dibujada = Some (dibujar_pista h m (xmax L)),
                      marca_aterrizaje = Some (x_land, y_land),
                      linea = [], esquiador = Some (x ! 0, y ! 0)\<rparr>,
                   ani := Some \<lparr>anim_x = x, anim_y = y,
                                anim_frames = length (tray_t tr), fotograma = 0\<rparr>,
                   fin_pendiente := True,
                   etiqueta := EtiquetaResultado (formato_2f distancia) (formato_2f (mejor_ang b))
                                                 (formato_2f (mejor_dist b))\<rparr>)))"

text \<open>
  Lines 26--39: \<open>simular_salto\<close> disables the button, reads the fields, and on a
  \<open>ValueError\<close> shows the message and re-enables the button. Values that
  \<open>float()\<close> accepts but are not finite (\<open>inf\<close>, \<open>nan\<close>) go on into the IEEE
  arithmetic of numpy and matplotlib, which the real-valued model does not describe: for
  them the result is \<open>None\<close>, and the event loop below takes no such click.
\<close>

definition simular_salto :: "ventana \<Rightarrow> ventana option" where
  "simular_salto w =
     (let w1 = w\<lparr>boton_activo := False\<rparr>
      in case leer_campos w1 of
           None \<Rightarrow> Some (w1\<lparr>etiqueta := EtiquetaError ErrorNumerico, boton_activo := True\<rparr>)
         | Some vs \<Rightarrow> map_option (lanzar w1) (valores_finitos vs))"

text \<open>
  One frame of the \<open>FuncAnimation\<close> of line 118 (\<open>frames=len(t)\<close>,
  \<open>repeat=False\<close>): \<open>actualizar(frame)\<close> sets the line to \<open>x[:frame], y[:frame]\<close>
  and the sprite to \<open>(x[frame], y[frame])\<close>; after the last frame the animation stops.
\<close>

definition actualizar :: "ventana \<Rightarrow> ventana" where
  "actualizar w =
     (case ani w of
        None \<Rightarrow> w
      | Some a \<Rightarrow>
          (let frame = fotograma a; x = anim_x a; y = anim_y a
           in if frame < anim_frames a
              then w\<lparr>grafico := (grafico w)\<lparr>linea := zip (take frame x) (take frame y),
                                             esquiador := Some (x ! frame, y ! frame)\<rparr>,
                     ani := (if Suc frame < anim_frames a
                             then Some (a\<lparr>fotograma := Suc frame\<rparr>) else None)\<rparr>
              else w\<lparr>ani := None\<rparr>))"

text \<open>The state after the first click on the default window: the launch at 25 m/s, 22.8
  degrees, slope -1, height 20.\<close>

abbreviation primer_salto :: ventana where
  "primer_salto \<equiv> lanzar (ventana_inicial\<lparr>boton_activo := False\<rparr>) (25, 22.8, -1, 20)"

definition on_animation_end :: "ventana \<Rightarrow> ventana" where
  "on_animation_end w = w\<lparr>boton_activo := True, fin_pendiente := False\<rparr>"

text \<open>
  The Tk event loop: the user may edit a field at any time and click the button only while
  it is enabled; the animation's timer delivers the next frame while the animation runs;
  the \<open>after\<close> timer fires once while pending. No order between the last two is fixed.
\<close>

inductive paso :: "ventana \<Rightarrow> ventana \<Rightarrow> bool" where
  editar_campo: "paso w (editar c v w)"
| pulsar: "boton_activo w \<Longrightarrow> simular_salto w = Some w' \<Longrightarrow> paso w w'"
| fotograma_siguiente: "ani w \<noteq> None \<Longrightarrow> paso w (actualizar w)"
| temporizador: "fin_pendiente w \<Longrightarrow> paso w (on_animation_end w)"

inductive alcanzable :: "ventana \<Rightarrow> bool" where
  inicio: "alcanzable ventana_inicial"
| sigue: "alcanzable w \<Longrightarrow> paso w w' \<Longrightarrow> alcanzable w'"

text \<open>
  The invariant of the window: the button is disabled exactly while the re-enabling timer
  is pending, and a running animation has arrays of its frame count, a next frame in range,
  and a canvas showing the frame before it (the line up to that sample, the sprite on it).
\<close>

definition inv_ventana :: "ventana \<Rightarrow> bool" where
  "inv_ventana w \<longleftrightarrow>
     (boton_activo w \<longleftrightarrow> \<not> fin_pendiente w) \<and>
     (case ani w of
        None \<Rightarrow> True
      | Some a \<Rightarrow>
          length (anim_x a) = anim_frames a \<and> length (anim_y a) = anim_frames a \<and>
          fotograma a < anim_frames a \<and>
          linea (grafico w) = zip (take (fotograma a - 1) (anim_x a)) (take (fotograma a - 1) (anim_y a)) \<and>
          esquiador (grafico w) = Some (anim_x a ! (fotograma a - 1), anim_y a ! (fotograma a - 1)))"

declare lienzo_inicial_def [sky_defs] ventana_inicial_def [sky_defs] editar_def [sky_defs]
  leer_campos_def [sky_defs] lanzar_def [sky_defs] simular_salto_def [sky_defs] actualizar_def [sky_defs]
  on_animation_end_def [sky_defs]

inductive_cases paso_cases: "paso w w'"

subsection \<open>The handlers, branch by branch\<close>

lemma leer_campos_None:
  "leer_campos w = None \<longleftrightarrow>
   float_py (campo_velocidad w) = None \<or> float_py (campo_angulo w) = None \<or>
   float_py (campo_pendiente w) = None \<or> float_py (campo_altura w) = None"
  by (auto simp: leer_campos_def bind_eq_None_conv)

lemma leer_campos_boton [simp]: "leer_campos (w\<lparr>boton_activo := b\<rparr>) = leer_campos w"
  by (simp add: leer_campos_def)

lemma simular_salto_error_numerico:
  "leer_campos w = None \<Longrightarrow>
   simular_salto w = Some (w\<lparr>etiqueta := EtiquetaError ErrorNumerico, boton_activo := True\<rparr>)"
  by (simp add: simular_salto_def)

lemma simular_salto_finito:
  "leer_campos w = Some (Finito v0, Finito angulo, Finito m, Finito h) \<Longrightarrow>
   simular_salto w = Some (lanzar (w\<lparr>boton_activo := False\<rparr>) (v0, angulo, m, h))"
  by (simp add: simular_salto_def)

lemma simular_salto_Some:
  assumes "simular_salto w = Some w'"
  shows "(leer_campos w = None \<and>
          w' = w\<lparr>etiqueta := EtiquetaError ErrorNumerico, boton_activo := True\<rparr>) \<or>
         (\<exists>v0 angulo m h. leer_campos w = Some (Finito v0, Finito angulo, Finito m, Finito h) \<and>
            w' = lanzar (w\<lparr>boton_activo := False\<rparr>) (v0, angulo, m, h))"
  using assms by (auto simp: simular_salto_def Let_def valores_finitos_Some split: option.splits)

lemma lanzar_sin_interseccion:
  "calcular_trayectoria v0 angulo m h = Inl e \<Longrightarrow>
   lanzar w (v0, angulo, m, h) = w\<lparr>etiqueta := EtiquetaError e, boton_activo := True\<rparr>"
  by (simp add: lanzar_def)

lemma lanzar_trayectoria:
  assumes "calcular_trayectoria v0 angulo m h = Inr tr"
  shows "boton_activo (lanzar w (v0, angulo, m, h)) = boton_activo w"
    and "fin_pendiente (lanzar w (v0, angulo, m, h)) = True"
    and "ani (lanzar w (v0, angulo, m, h)) =
         Some \<lparr>anim_x = tray_x tr, anim_y = tray_y tr, anim_frames = length (tray_t tr), fotograma = 0\<rparr>"
    and "linea (grafico (lanzar w (v0, angulo, m, h))) = []"
    and "esquiador (grafico (lanzar w (v0, angulo, m, h))) = Some (tray_x tr ! 0, tray_y tr ! 0)"
    and "etiqueta (lanzar w (v0, angulo, m, h)) =
         EtiquetaResultado (formato_2f (fst (punto_aterrizaje tr) - 0))
                           (formato_2f (mejor_ang (mejor_angulo v0 m)))
                           (formato_2f (mejor_dist (mejor_angulo v0 m)))"
    and "marca_aterrizaje (grafico (lanzar w (v0, angulo, m, h))) = Some (punto_aterrizaje tr)"
  using assms by (simp_all add: lanzar_def Let_def split: prod.split)

lemma leer_campos_lanzar [simp]: "leer_campos (lanzar w p) = leer_campos w"
proof -
  have "campo_velocidad (lanzar w p) = campo_velocidad w \<and> campo_angulo (lanzar w p) = campo_angulo w \<and>
        campo_pendiente (lanzar w p) = campo_pendiente w \<and> campo_altura (lanzar w p) = campo_altura w"
    by (auto simp: lanzar_def Let_def split: sum.split prod.split)
  then show ?thesis by (simp add: leer_campos_def)
qed

lemma leer_campos_on_animation_end [simp]: "leer_campos (on_animation_end w) = leer_campos w"
  by (simp add: leer_campos_def on_animation_end_def)

subsection \<open>The invariant, handler by handler\<close>

lemma inv_inicial: "inv_ventana ventana_inicial"
  by (simp add: inv_ventana_def ventana_inicial_def lienzo_inicial_def)

lemma inv_editar: "inv_ventana w \<Longrightarrow> inv_ventana (editar c v w)"
  by (cases c) (simp_all add: inv_ventana_def editar_def split: option.splits)

lemma inv_lanzar:
  assumes inv: "inv_ventana w" and b: "boton_activo w"
  shows "inv_ventana (lanzar (w\<lparr>boton_activo := False\<rparr>) (v0, angulo, m, h))"
proof (cases "calcular_trayectoria v0 angulo m h")
  case (Inl e)
  with inv b show ?thesis
    by (simp add: lanzar_sin_interseccion inv_ventana_def split: option.splits)
next
  case (Inr tr)
  note S = lanzar_trayectoria [OF Inr]
  have len: "length (tray_x tr) = length (tray_t tr)" "length (tray_y tr) = length (tray_t tr)"
    "0 < length (tray_t tr)"
    using trayectoria_nth(3,4,5) [OF Inr] by simp_all
  show ?thesis using S len by (simp add: inv_ventana_def)
qed

lemma inv_simular_salto:
  assumes inv: "inv_ventana w" and b: "boton_activo w" and s: "simular_salto w = Some w'"
  shows "inv_ventana w'"
  using simular_salto_Some [OF s]
proof
  assume "leer_campos w = None \<and> w' = w\<lparr>etiqueta := EtiquetaError ErrorNumerico, boton_activo := True\<rparr>"
  with inv b show ?thesis by (simp add: inv_ventana_def split: option.splits)
next
  assume "\<exists>v0 angulo m h. leer_campos w = Some (Finito v0, Finito angulo, Finito m, Finito h) \<and>
            w' = lanzar (w\<lparr>boton_activo := False\<rparr>) (v0, angulo, m, h)"
  with inv_lanzar [OF inv b] show ?thesis by blast
qed

lemma inv_actualizar: "inv_ventana w \<Longrightarrow> inv_ventana (actualizar w)"
  by (auto simp: inv_ventana_def actualizar_def Let_def split: option.splits)

lemma inv_on_animation_end:
  "inv_ventana w \<Longrightarrow> fin_pendiente w \<Longrightarrow> inv_ventana (on_animation_end w)"
  by (simp add: inv_ventana_def on_animation_end_def split: option.splits)

lemma paso_inv: "paso w w' \<Longrightarrow> inv_ventana w \<Longrightarrow> inv_ventana w'"
  by (induction rule: paso.induct)
     (simp_all add: inv_editar inv_simular_salto inv_actualizar inv_on_animation_end)

lemma alcanzable_inv: "alcanzable w \<Longrightarrow> inv_ventana w"
proof (induction rule: alcanzable.induct)
  case inicio
  show ?case by (rule inv_inicial)
next
  case (sigue w w')
  then show ?case by (blast intro: paso_inv)
qed

text \<open>The default texts parse to 25, 22.8, -1 (the negated slope) and 20, and give a
  trajectory: the start of every witness run.\<close>

lemma leer_campos_inicial:
  "leer_campos ventana_inicial = Some (Finito 25, Finito 22.8, Finito (-1), Finito 20)"
  by (simp add: leer_campos_def ventana_inicial_def sky_defs)

lemma lanzamiento_inicial: "\<exists>tr. calcular_trayectoria 25 22.8 (-1) 20 = Inr tr"
proof -
  have "valido 25 (-1) 22.8" using valido_rampa_descendente [of 25 "-1" "22.8"] by simp
  then show ?thesis using trayectoria_existe_valido by blast
qed

lemma simular_salto_inicial: "simular_salto ventana_inicial = Some primer_salto"
  by (rule simular_salto_finito [OF leer_campos_inicial])

lemma alcanzable_primer_salto: "alcanzable primer_salto"
  by (rule alcanzable.sigue [OF alcanzable.inicio paso.pulsar [OF _ simular_salto_inicial]])
     (simp add: ventana_inicial_def)

subsection \<open>Runs of the animation\<close>

text \<open>One frame event on a frame that is not the last advances the frame counter by one.\<close>

lemma actualizar_avanza:
  assumes "ani w = Some a" and "Suc (fotograma a) < anim_frames a"
  shows "ani (actualizar w) = Some (a\<lparr>fotograma := Suc (fotograma a)\<rparr>)"
  using assms by (simp add: actualizar_def Let_def)

lemma actualizar_ultimo:
  assumes "ani w = Some a" and "Suc (fotograma a) = anim_frames a"
    and "length (anim_x a) = anim_frames a" and "length (anim_y a) = anim_frames a"
  shows "ani (actualizar w) = None \<and>
         esquiador (grafico (actualizar w)) = Some (last (anim_x a), last (anim_y a)) \<and>
         linea (grafico (actualizar w)) = zip (butlast (anim_x a)) (butlast (anim_y a))"
proof -
  have ne: "anim_x a \<noteq> []" "anim_y a \<noteq> []" using assms(2-4) by auto
  have f: "length (anim_x a) - Suc 0 = fotograma a" "length (anim_y a) - Suc 0 = fotograma a"
    using assms(2-4) by simp_all
  show ?thesis
    using assms(1,2) ne by (simp add: actualizar_def Let_def butlast_conv_take last_conv_nth f)
qed

lemma marca_actualizar [simp]:
  "marca_aterrizaje (grafico ((actualizar ^^ k) w)) = marca_aterrizaje (grafico w)"
proof (induction k)
  case (Suc k)
  then show ?case by (simp add: actualizar_def Let_def split: option.split)
qed simp

text \<open>\<open>k\<close> frame events from frame \<open>f\<close> reach frame \<open>f + k\<close>, while that is not past the last.\<close>

lemma actualizar_pasos:
  assumes "ani w = Some a" and "fotograma a + k < anim_frames a"
  shows "ani ((actualizar ^^ k) w) = Some (a\<lparr>fotograma := fotograma a + k\<rparr>)"
  using assms(2)
proof (induction k)
  case 0
  then show ?case using assms(1) by simp
next
  case (Suc k)
  then have "ani ((actualizar ^^ k) w) = Some (a\<lparr>fotograma := fotograma a + k\<rparr>)" by simp
  with Suc.prems show ?case by (simp add: actualizar_avanza)
qed

subsection \<open>Properties of the window\<close>





text \<open>
  C30. The last frame stops the animation with the sprite on the landing point, but the
  polyline it leaves is \<open>x[:frame]\<close> (line 111), the trajectory without its last
  sample: the drawn trajectory never reaches the landing point.
\<close>
theorem ultimo_fotograma:
  assumes "ani w = Some a" and "Suc (fotograma a) = anim_frames a"
    and "length (anim_x a) = anim_frames a" and "length (anim_y a) = anim_frames a"
  shows "ani (actualizar w) = None \<and>
         esquiador (grafico (actualizar w)) = Some (last (anim_x a), last (anim_y a)) \<and>
         linea (grafico (actualizar w)) = zip (butlast (anim_x a)) (butlast (anim_y a))"
  using assms by (rule actualizar_ultimo)

theorem ultimo_fotograma_witness:
  "ani (actualizar (ventana_inicial\<lparr>ani := Some \<lparr>anim_x = [0, 1], anim_y = [20, 19],
                                                   anim_frames = 2, fotograma = 1\<rparr>\<rparr>)) = None \<and>
   linea (grafico (actualizar (ventana_inicial\<lparr>ani := Some \<lparr>anim_x = [0, 1], anim_y = [20, 19],
                                                   anim_frames = 2, fotograma = 1\<rparr>\<rparr>))) = [(0, 20)]"
  using ultimo_fotograma [of "ventana_inicial\<lparr>ani := Some \<lparr>anim_x = [0, 1], anim_y = [20, 19],
                                                   anim_frames = 2, fotograma = 1\<rparr>\<rparr>"]
  by simp


text \<open>
  C17. A field that \<open>float()\<close> rejects ends the click with the "numeric values" message
  and the button enabled; the canvas, the animation and the pending timer are untouched.
\<close>

theorem error_numerico_sin_efecto:
  assumes "float_py (campo_velocidad w) = None \<or> float_py (campo_angulo w) = None \<or>
           float_py (campo_pendiente w) = None \<or> float_py (campo_altura w) = None"
  shows "\<exists>w'. simular_salto w = Some w' \<and> boton_activo w' \<and>
              etiqueta w' = EtiquetaError ErrorNumerico \<and> grafico w' = grafico w \<and>
              ani w' = ani w \<and> fin_pendiente w' = fin_pendiente w"
proof -
  have "leer_campos w = None" using assms by (simp add: leer_campos_None)
  then show ?thesis by (simp add: simular_salto_error_numerico)
qed

theorem error_numerico_sin_efecto_witness:
  "float_py ''22,8'' = None \<and>
   (\<exists>w'. simular_salto (ventana_inicial\<lparr>campo_angulo := ''22,8''\<rparr>) = Some w' \<and> boton_activo w' \<and>
         etiqueta w' = EtiquetaError ErrorNumerico \<and> grafico w' = lienzo_inicial)"
proof -
  have f: "float_py ''22,8'' = None" by (simp add: sky_defs)
  show ?thesis
    using error_numerico_sin_efecto [of "ventana_inicial\<lparr>campo_angulo := ''22,8''\<rparr>"] f
    by (auto simp: ventana_inicial_def)
qed

text \<open>
  C18. A launch whose landing time is not positive ends with the "no intersection"
  message and the button enabled; the canvas, the animation and the timer are untouched.
\<close>

theorem sin_interseccion_sin_efecto:
  assumes "leer_campos w = Some (Finito v0, Finito angulo, Finito m, Finito h)"
    and "calcular_trayectoria v0 angulo m h = Inl e"
  shows "\<exists>w'. simular_salto w = Some w' \<and> boton_activo w' \<and>
              etiqueta w' = EtiquetaError SinInterseccion \<and> grafico w' = grafico w \<and> ani w' = ani w"
  using assms(2) by (simp add: simular_salto_finito [OF assms(1)] lanzar_sin_interseccion
                               calcular_trayectoria_Inl)

theorem sin_interseccion_sin_efecto_witness:
  "\<exists>w'. simular_salto (ventana_inicial\<lparr>campo_angulo := ''0'', campo_pendiente := ''0'',
                                          campo_altura := ''0''\<rparr>) = Some w' \<and>
        boton_activo w' \<and> etiqueta w' = EtiquetaError SinInterseccion"
proof -
  let ?w = "ventana_inicial\<lparr>campo_angulo := ''0'', campo_pendiente := ''0'', campo_altura := ''0''\<rparr>"
  have l: "leer_campos ?w = Some (Finito 25, Finito 0, Finito 0, Finito 0)"
    by (simp add: leer_campos_def ventana_inicial_def sky_defs)
  have c: "calcular_trayectoria 25 0 0 0 = Inl SinInterseccion"
    by (simp add: calcular_trayectoria_Inl sky_defs)
  show ?thesis using sin_interseccion_sin_efecto [OF l c] by blast
qed



text \<open>
  C36. A running animation always ends, frame after frame: in a reachable state with the
  animation at frame \<open>f\<close> of \<open>n\<close>, the next \<open>k < n - f\<close> frame events show frames
  \<open>f, f + 1, \<dots>\<close> in order with none skipped, and after exactly \<open>n - f\<close> of them the
  animation has stopped with the sprite on the last sample, the landing point.
\<close>
theorem animacion_termina:
  assumes "alcanzable w" and "ani w = Some a"
  shows "(\<forall>k < anim_frames a - fotograma a.
            ani ((actualizar ^^ k) w) = Some (a\<lparr>fotograma := fotograma a + k\<rparr>)) \<and>
         ani ((actualizar ^^ (anim_frames a - fotograma a)) w) = None \<and>
         esquiador (grafico ((actualizar ^^ (anim_frames a - fotograma a)) w)) =
           Some (last (anim_x a), last (anim_y a))"
proof -
  have inv: "fotograma a < anim_frames a" "length (anim_x a) = anim_frames a"
    "length (anim_y a) = anim_frames a"
    using alcanzable_inv [OF assms(1)] assms(2) by (simp_all add: inv_ventana_def)
  define k where "k = anim_frames a - fotograma a - 1"
  have n: "anim_frames a - fotograma a = Suc k" using inv(1) by (simp add: k_def)
  have steps: "\<forall>j < anim_frames a - fotograma a.
                 ani ((actualizar ^^ j) w) = Some (a\<lparr>fotograma := fotograma a + j\<rparr>)"
    using actualizar_pasos [OF assms(2)] by simp
  have last: "ani ((actualizar ^^ k) w) = Some (a\<lparr>fotograma := fotograma a + k\<rparr>)"
    using steps n by simp
  have "Suc (fotograma a + k) = anim_frames a" using inv(1) by (simp add: k_def)
  then have "ani (actualizar ((actualizar ^^ k) w)) = None \<and>
             esquiador (grafico (actualizar ((actualizar ^^ k) w))) =
               Some (last (anim_x a), last (anim_y a))"
    using actualizar_ultimo [OF last] inv(2,3) by simp
  then show ?thesis using steps by (simp add: n)
qed

theorem animacion_termina_witness:
  "\<exists>a. alcanzable primer_salto \<and> ani primer_salto = Some a \<and>
       ani ((actualizar ^^ (anim_frames a - fotograma a)) primer_salto) = None"
proof -
  obtain tr where tr: "calcular_trayectoria 25 22.8 (-1) 20 = Inr tr"
    using lanzamiento_inicial by blast
  define a where "a = \<lparr>anim_x = tray_x tr, anim_y = tray_y tr,
                       anim_frames = length (tray_t tr), fotograma = 0\<rparr>"
  have "ani primer_salto = Some a" using lanzar_trayectoria(3) [OF tr] by (simp add: a_def)
  with animacion_termina [OF alcanzable_primer_salto this] alcanzable_primer_salto
  show ?thesis by blast
qed

text \<open>
  C14. After a launch that lands, the three numbers of the result label, written with
  \<open>:.2f\<close>, read back with \<open>float()\<close> to within 0.005 of the landing distance, the
  best angle and the best distance (for inputs whose distances stay below \<open>10\<^sup>3\<^sup>0\<^sup>0\<close>).
\<close>

theorem etiqueta_legible:
  assumes "leer_campos w = Some (Finito v0, Finito angulo, Finito m, Finito h)"
    and "calcular_trayectoria v0 angulo m h = Inr tr"
    and "2 * v0\<^sup>2 * (1 + \<bar>m\<bar>) / g \<le> 10 ^ 300"
  shows "\<exists>w' d a b. simular_salto w = Some w' \<and> etiqueta w' = EtiquetaResultado d a b \<and>
           (\<exists>v. float_py d = Some (Finito v) \<and> \<bar>v - fst (punto_aterrizaje tr)\<bar> \<le> 1 / 200) \<and>
           (\<exists>v. float_py a = Some (Finito v) \<and> \<bar>v - mejor_ang (mejor_angulo v0 m)\<bar> \<le> 1 / 200) \<and>
           (\<exists>v. float_py b = Some (Finito v) \<and> \<bar>v - mejor_dist (mejor_angulo v0 m)\<bar> \<le> 1 / 200)"
proof -
  have "fst (punto_aterrizaje tr) = alcance v0 m angulo"
    using trayectoria_alcance [OF assms(2)] by simp
  then have d: "\<bar>fst (punto_aterrizaje tr) - 0\<bar> \<le> 10 ^ 300"
    using alcance_cota [of v0 m angulo] assms(3) by simp
  have a: "\<bar>mejor_ang (mejor_angulo v0 m)\<bar> \<le> 10 ^ 300" using mejor_ang_acotado [of v0 m] by simp
  have b: "\<bar>mejor_dist (mejor_angulo v0 m)\<bar> \<le> 10 ^ 300"
    using mejor_dist_acotada [of v0 m] mejor_dist_no_negativa [of v0 m] assms(3) by simp
  show ?thesis
    using formato_2f_legible [OF d] formato_2f_legible [OF a] formato_2f_legible [OF b]
    by (simp add: simular_salto_finito [OF assms(1)] lanzar_trayectoria(6) [OF assms(2)])
qed

theorem etiqueta_legible_witness:
  "\<exists>tr w' d a b. calcular_trayectoria 25 22.8 (-1) 20 = Inr tr \<and>
     simular_salto ventana_inicial = Some w' \<and> etiqueta w' = EtiquetaResultado d a b \<and>
     (\<exists>v. float_py d = Some (Finito v) \<and> \<bar>v - fst (punto_aterrizaje tr)\<bar> \<le> 1 / 200)"
proof -
  obtain tr where tr: "calcular_trayectoria 25 22.8 (-1) 20 = Inr tr"
    using lanzamiento_inicial by blast
  have cota: "2 * 25\<^sup>2 * (1 + \<bar>-1 :: real\<bar>) / g \<le> 10 ^ 300" by (simp add: g_def)
  show ?thesis
    using etiqueta_legible [OF leer_campos_inicial tr cota] tr by blast
qed

text \<open>
  C38. The canvas after a whole run: from a successful launch, the 300 frame events stop
  the animation with the sprite and the red marker both on the landing point, which lies
  on the ramp, while the polyline holds the 299 samples before it, none below the ramp.
\<close>

theorem lienzo_final:
  assumes "leer_campos w = Some (Finito v0, Finito angulo, Finito m, Finito h)"
    and "calcular_trayectoria v0 angulo m h = Inr tr" and "simular_salto w = Some w'"
  shows "ani ((actualizar ^^ num_muestras) w') = None \<and>
         esquiador (grafico ((actualizar ^^ num_muestras) w')) = Some (punto_aterrizaje tr) \<and>
         marca_aterrizaje (grafico ((actualizar ^^ num_muestras) w')) = Some (punto_aterrizaje tr) \<and>
         snd (punto_aterrizaje tr) = pista h m 0 (fst (punto_aterrizaje tr)) \<and>
         length (linea (grafico ((actualizar ^^ num_muestras) w'))) = num_muestras - 1 \<and>
         (\<forall>q \<in> set (linea (grafico ((actualizar ^^ num_muestras) w'))). pista h m 0 (fst q) \<le> snd q)"
proof -
  note T = trayectoria_nth [OF assms(2)]
  have w': "w' = lanzar (w\<lparr>boton_activo := False\<rparr>) (v0, angulo, m, h)"
    using simular_salto_finito [OF assms(1)] assms(3) by simp
  define a where "a = \<lparr>anim_x = tray_x tr, anim_y = tray_y tr,
                       anim_frames = length (tray_t tr), fotograma = 0\<rparr>"
  have a: "ani w' = Some a" using lanzar_trayectoria(3) [OF assms(2)] by (simp add: w' a_def)
  have n: "anim_frames a = num_muestras" "length (anim_x a) = num_muestras"
    "length (anim_y a) = num_muestras" using T(3-5) by (simp_all add: a_def)
  let ?k = "num_muestras - 1"
  have k: "ani ((actualizar ^^ ?k) w') = Some (a\<lparr>fotograma := ?k\<rparr>)"
    using actualizar_pasos [OF a, of ?k] n by (simp add: a_def)
  have u: "ani (actualizar ((actualizar ^^ ?k) w')) = None \<and>
           esquiador (grafico (actualizar ((actualizar ^^ ?k) w'))) = Some (last (tray_x tr), last (tray_y tr)) \<and>
           linea (grafico (actualizar ((actualizar ^^ ?k) w'))) = zip (butlast (tray_x tr)) (butlast (tray_y tr))"
    using actualizar_ultimo [OF k] n by (simp add: a_def)
  have f: "(actualizar ^^ num_muestras) w' = actualizar ((actualizar ^^ ?k) w')"
    by (metis Suc_diff_1 funpow.simps(2) comp_apply num_muestras_pos)
  have marca: "marca_aterrizaje (grafico w') = Some (punto_aterrizaje tr)"
    using lanzar_trayectoria(7) [OF assms(2)] by (simp add: w')
  have pista: "snd (punto_aterrizaje tr) = pista h m 0 (fst (punto_aterrizaje tr))"
    using en_pista_iff trayectoria_nth(2) [OF assms(2)] punto_aterrizaje_formula [OF assms(2)] by simp
  have sobre: "pista h m 0 (fst q) \<le> snd q"
    if q: "q \<in> set (zip (butlast (tray_x tr)) (butlast (tray_y tr)))" for q
  proof -
    obtain i where i: "i < min (length (butlast (tray_x tr))) (length (butlast (tray_y tr)))"
      "q = (butlast (tray_x tr) ! i, butlast (tray_y tr) ! i)"
      using q unfolding set_zip by blast
    have il: "i < num_muestras - 1" using i(1) T(4,5) by simp
    then have "q = (tray_x tr ! i, tray_y tr ! i)" using i(2) T(4,5) by (simp add: nth_butlast)
    then show ?thesis using muestra_sobre_pista [OF assms(2), of i] il by simp
  qed
  have m2: "marca_aterrizaje (grafico ((actualizar ^^ num_muestras) w')) = Some (punto_aterrizaje tr)"
    using marca by simp
  show ?thesis
    using u m2 pista sobre T(4,5) unfolding f by (simp add: punto_aterrizaje_def)
qed

theorem lienzo_final_witness:
  "\<exists>tr. calcular_trayectoria 25 22.8 (-1) 20 = Inr tr \<and>
        esquiador (grafico ((actualizar ^^ num_muestras) primer_salto)) = Some (punto_aterrizaje tr) \<and>
        marca_aterrizaje (grafico ((actualizar ^^ num_muestras) primer_salto)) = Some (punto_aterrizaje tr)"
proof -
  obtain tr where tr: "calcular_trayectoria 25 22.8 (-1) 20 = Inr tr"
    using lanzamiento_inicial by blast
  show ?thesis using lienzo_final [OF leer_campos_inicial tr simular_salto_inicial] tr by blast
qed

end
