(* ===== verification/Tiempo.thy ===== *)
theory Tiempo
  imports Shell
begin

text \<open>
  The event loop of \<^verbatim>\<open>src/sky.py\<close> with time. A successful launch schedules two
  Tk timers: the \<open>FuncAnimation\<close> of line 118, whose timer calls \<open>actualizar\<close>
  once per frame period \<open>p\<close> (milliseconds), and \<open>ventana.after(len(t) * 10,
  on_animation_end)\<close> of line 119. The period \<open>p\<close> is a parameter: matplotlib runs
  the animation's timer with an interval of \<open>max(int(0.5), 1) = 1\<close> ms and re-arms it
  after each frame is drawn, so \<open>p\<close> is 1 ms plus the time to draw a frame, which
  depends on the machine. The state \<open>reloj\<close> adds to the window the current time and
  the deadlines of the two timers. Tk runs due timers in the order of their deadlines
  and, on equal deadlines, in the order they were created; the \<open>after\<close> timer is
  created (line 119) before the animation's first timer (started by the draw of line
  121), so it wins a tie. User events (typing, clicking) happen at any time no later
  than the next deadline. A new launch replaces the animation (the old one's frames then
  only update artists that \<open>ax.clear()\<close> has removed from the axes).
\<close>

record reloj =
  vent :: ventana
  ahora :: real
  prox_fotograma :: "real option"
  plazo_fin :: "real option"

text \<open>A deadline \<open>d\<close> has not passed at time \<open>t\<close>; it comes strictly before time \<open>t\<close>.\<close>

definition no_vencido :: "real \<Rightarrow> real option \<Rightarrow> bool" where
  "no_vencido t d = (case d of None \<Rightarrow> True | Some e \<Rightarrow> t \<le> e)"

definition vence_antes :: "real \<Rightarrow> real option \<Rightarrow> bool" where
  "vence_antes d e = (case e of None \<Rightarrow> True | Some e' \<Rightarrow> d < e')"

text \<open>Line 119: the delay of \<open>on_animation_end\<close>, \<open>len(t) * 10\<close> ms.\<close>

definition retardo_fin :: "nat \<Rightarrow> real" where
  "retardo_fin n = real n * 10"

text \<open>A click at time \<open>t\<close>: a launch that starts an animation (lines 118--119) arms
  both timers; the error branches leave them as they were.\<close>

definition tras_pulsar :: "real \<Rightarrow> real \<Rightarrow> ventana \<Rightarrow> reloj \<Rightarrow> reloj" where
  "tras_pulsar p t w' s =
     (case ani w' of
        Some a \<Rightarrow>
          if fin_pendiente w'
          then \<lparr>vent = w', ahora = t, prox_fotograma = Some (t + p),
                plazo_fin = Some (t + retardo_fin (anim_frames a))\<rparr>
          else s\<lparr>vent := w', ahora := t\<rparr>
      | None \<Rightarrow> s\<lparr>vent := w', ahora := t\<rparr>)"

definition reloj_inicial :: reloj where
  "reloj_inicial = \<lparr>vent = ventana_inicial, ahora = 0, prox_fotograma = None, plazo_fin = None\<rparr>"

inductive paso_t :: "real \<Rightarrow> reloj \<Rightarrow> reloj \<Rightarrow> bool" for p :: real where
  editar_t: "ahora s \<le> t \<Longrightarrow> no_vencido t (prox_fotograma s) \<Longrightarrow> no_vencido t (plazo_fin s) \<Longrightarrow>
             paso_t p s (s\<lparr>vent := editar c v (vent s), ahora := t\<rparr>)"
| pulsar_t: "ahora s \<le> t \<Longrightarrow> no_vencido t (prox_fotograma s) \<Longrightarrow> no_vencido t (plazo_fin s) \<Longrightarrow>
             boton_activo (vent s) \<Longrightarrow> simular_salto (vent s) = Some w' \<Longrightarrow>
             paso_t p s (tras_pulsar p t w' s)"
| fotograma_t: "ani (vent s) \<noteq> None \<Longrightarrow> prox_fotograma s = Some d \<Longrightarrow> vence_antes d (plazo_fin s) \<Longrightarrow>
                paso_t p s \<lparr>vent = actualizar (vent s), ahora = d,
                            prox_fotograma = (if ani (actualizar (vent s)) = None then None
                                              else Some (d + p)),
                            plazo_fin = plazo_fin s\<rparr>"
| temporizador_t: "fin_pendiente (vent s) \<Longrightarrow> plazo_fin s = Some e \<Longrightarrow>
                   no_vencido e (prox_fotograma s) \<Longrightarrow>
                   paso_t p s (s\<lparr>vent := on_animation_end (vent s), ahora := e, plazo_fin := None\<rparr>)"

inductive alcanzable_t :: "real \<Rightarrow> reloj \<Rightarrow> bool" for p :: real where
  inicio_t: "alcanzable_t p reloj_inicial"
| sigue_t: "alcanzable_t p s \<Longrightarrow> paso_t p s s' \<Longrightarrow> alcanzable_t p s'"

text \<open>
  The timed invariant: a deadline is armed exactly while its handler has work (a running
  animation, a pending \<open>on_animation_end\<close>), and while both are armed they come from
  the same launch at time \<open>t0\<close>: frame \<open>f\<close> is due at \<open>t0 + (f + 1) p\<close> and the
  timer at \<open>t0 + 10 n\<close>.
\<close>

definition inv_t :: "real \<Rightarrow> reloj \<Rightarrow> bool" where
  "inv_t p s \<longleftrightarrow>
     (prox_fotograma s = None \<longleftrightarrow> ani (vent s) = None) \<and>
     (plazo_fin s = None \<longleftrightarrow> \<not> fin_pendiente (vent s)) \<and>
     (case (ani (vent s), prox_fotograma s, plazo_fin s) of
        (Some a, Some d, Some e) \<Rightarrow> d - real (Suc (fotograma a)) * p = e - retardo_fin (anim_frames a)
      | _ \<Rightarrow> True)"

declare no_vencido_def [sky_defs] vence_antes_def [sky_defs] retardo_fin_def [sky_defs]
  tras_pulsar_def [sky_defs] reloj_inicial_def [sky_defs]

inductive_cases paso_t_cases: "paso_t p s s'"

subsection \<open>The timed loop refines the untimed one\<close>

lemma vent_tras_pulsar [simp]: "vent (tras_pulsar p t w' s) = w'"
  by (simp add: tras_pulsar_def split: option.split)

lemma paso_t_paso: "paso_t p s s' \<Longrightarrow> paso (vent s) (vent s')"
  by (induction rule: paso_t.induct) (auto intro: paso.intros)

lemma alcanzable_t_alcanzable: "alcanzable_t p s \<Longrightarrow> alcanzable (vent s)"
proof (induction rule: alcanzable_t.induct)
  case inicio_t
  show ?case by (simp add: reloj_inicial_def alcanzable.inicio)
next
  case (sigue_t s s')
  then show ?case by (blast intro: alcanzable.sigue paso_t_paso)
qed

subsection \<open>The timed invariant\<close>

lemma actualizar_sin_temporizador [simp]:
  "fin_pendiente (actualizar w) = fin_pendiente w" "boton_activo (actualizar w) = boton_activo w"
  by (simp_all add: actualizar_def Let_def split: option.split)

lemma editar_sin_temporizador [simp]:
  "ani (editar c v w) = ani w" "fin_pendiente (editar c v w) = fin_pendiente w"
  "boton_activo (editar c v w) = boton_activo w"
  by (cases c; simp add: editar_def)+

lemma inv_t_inicial: "inv_t p reloj_inicial"
  by (simp add: inv_t_def reloj_inicial_def ventana_inicial_def)

lemma inv_t_pulsar:
  assumes inv: "inv_t p s" and invw: "inv_ventana (vent s)" and b: "boton_activo (vent s)"
    and sim: "simular_salto (vent s) = Some w'"
  shows "inv_t p (tras_pulsar p t w' s)"
proof -
  have nf: "\<not> fin_pendiente (vent s)" using invw b by (simp add: inv_ventana_def)
  have igual: "inv_t p (s\<lparr>vent := w', ahora := t\<rparr>)"
    if "ani w' = ani (vent s)" "fin_pendiente w' = fin_pendiente (vent s)"
    using inv that by (simp add: inv_t_def)
  consider (err) "w' = vent s\<lparr>etiqueta := EtiquetaError ErrorNumerico, boton_activo := True\<rparr>"
    | (lanza) v0 angulo m h where "w' = lanzar (vent s\<lparr>boton_activo := False\<rparr>) (v0, angulo, m, h)"
    using simular_salto_Some [OF sim] by blast
  then show ?thesis
  proof cases
    case err
    then show ?thesis using igual nf by (simp add: tras_pulsar_def split: option.split)
  next
    case lanza
    show ?thesis
    proof (cases "calcular_trayectoria v0 angulo m h")
      case (Inl e)
      then show ?thesis
        using igual nf lanza by (simp add: lanzar_sin_interseccion tras_pulsar_def split: option.split)
    next
      case (Inr tr)
      then show ?thesis using lanza
        by (simp add: lanzar_trayectoria tras_pulsar_def inv_t_def retardo_fin_def)
    qed
  qed
qed

lemma inv_t_paso:
  "paso_t p s s' \<Longrightarrow> inv_t p s \<Longrightarrow> inv_ventana (vent s) \<Longrightarrow> inv_t p s'"
proof (induction rule: paso_t.induct)
  case (editar_t s t c v)
  then show ?case by (simp add: inv_t_def)
next
  case (pulsar_t s t w')
  then show ?case by (simp add: inv_t_pulsar)
next
  case (fotograma_t s d)
  then obtain a where a: "ani (vent s) = Some a" by blast
  have f: "fotograma a < anim_frames a" using fotograma_t.prems(2) a by (simp add: inv_ventana_def)
  show ?case
    using fotograma_t.prems(1) fotograma_t.hyps(2) a f
    by (auto simp: inv_t_def actualizar_def Let_def algebra_simps split: option.splits)
next
  case (temporizador_t s e)
  then show ?case by (simp add: inv_t_def on_animation_end_def split: option.splits)
qed

lemma alcanzable_t_inv: "alcanzable_t p s \<Longrightarrow> inv_t p s \<and> inv_ventana (vent s)"
proof (induction rule: alcanzable_t.induct)
  case inicio_t
  show ?case using inv_t_inicial inv_inicial by (simp add: reloj_inicial_def)
next
  case (sigue_t s s')
  then show ?case
    using inv_t_paso alcanzable_inv alcanzable_t_alcanzable alcanzable_t.sigue_t by blast
qed

subsection \<open>Fast frames: the timer comes after the last frame\<close>

text \<open>While both timers are armed, frame \<open>f < n\<close> is due strictly before the
  \<open>after\<close> timer when \<open>p < 10\<close>.\<close>

lemma fotograma_antes_del_fin:
  assumes "p < 10" and "fotograma a < anim_frames a"
    and "d - real (Suc (fotograma a)) * p = e - retardo_fin (anim_frames a)"
  shows "d < e"
proof -
  have "real (Suc (fotograma a)) * p < real (anim_frames a) * 10"
  proof (cases "0 < p")
    case True
    have "real (Suc (fotograma a)) * p \<le> real (anim_frames a) * p"
      using assms(2) True by (intro mult_right_mono) auto
    also have "\<dots> < real (anim_frames a) * 10" using assms(1,2) by simp
    finally show ?thesis .
  next
    case False
    then have "real (Suc (fotograma a)) * p \<le> 0" by (simp add: mult_nonneg_nonpos)
    also have "0 < real (anim_frames a) * 10" using assms(2) by simp
    finally show ?thesis .
  qed
  then show ?thesis using assms(3) by (simp add: retardo_fin_def)
qed

lemma rapido_paso:
  assumes "paso_t p s s'" and "p < 10" and "inv_t p s" and "inv_ventana (vent s)"
    and "ani (vent s) \<noteq> None \<longrightarrow> plazo_fin s \<noteq> None" and "ani (vent s') \<noteq> None"
  shows "plazo_fin s' \<noteq> None"
  using assms
proof (induction rule: paso_t.induct)
  case (editar_t s t c v)
  then show ?case by simp
next
  case (pulsar_t s t w')
  have "fin_pendiente w' \<or> ani w' = ani (vent s)"
    using simular_salto_Some [OF pulsar_t(5)]
    by (auto simp: lanzar_def Let_def split: sum.split prod.split)
  then show ?case using pulsar_t.prems
    by (auto simp: tras_pulsar_def split: option.split_asm if_split_asm)
next
  case (fotograma_t s d)
  then show ?case by simp
next
  case (temporizador_t s e)
  have "ani (vent s) \<noteq> None" using temporizador_t.prems(5) by (simp add: on_animation_end_def)
  then obtain a d where a: "ani (vent s) = Some a" and d: "prox_fotograma s = Some d"
    using temporizador_t.prems(2) by (auto simp: inv_t_def)
  have "d < e"
    using fotograma_antes_del_fin [OF temporizador_t.prems(1), of a d e] temporizador_t.prems(2,3)
      a d temporizador_t.hyps(2)
    by (simp add: inv_t_def inv_ventana_def)
  then show ?case using temporizador_t.hyps(3) d by (simp add: no_vencido_def)
qed

lemma rapido_temporizador_armado:
  assumes "p < 10" and "alcanzable_t p s"
  shows "ani (vent s) \<noteq> None \<longrightarrow> plazo_fin s \<noteq> None"
  using assms(2)
proof (induction rule: alcanzable_t.induct)
  case inicio_t
  then show ?case by (simp add: reloj_inicial_def ventana_inicial_def)
next
  case (sigue_t s s')
  then show ?case using rapido_paso [OF sigue_t.hyps(2) assms(1)] alcanzable_t_inv by blast
qed

subsection \<open>Slow frames: the timer comes while frames remain\<close>

lemma funpow_actualizar_temporizador [simp]:
  "fin_pendiente ((actualizar ^^ k) w) = fin_pendiente w"
  "boton_activo ((actualizar ^^ k) w) = boton_activo w"
  by (induction k) simp_all

text \<open>From a launch at time 0, frame \<open>k\<close> is drawn at time \<open>k p\<close> while that is before
  the \<open>after\<close> timer.\<close>

lemma lento_fotogramas:
  assumes p: "10 \<le> p" and w: "ani w = Some a" "fotograma a = 0"
    and s0: "alcanzable_t p \<lparr>vent = w, ahora = 0, prox_fotograma = Some p,
                                 plazo_fin = Some (retardo_fin (anim_frames a))\<rparr>"
    and k: "real k * p < retardo_fin (anim_frames a)"
  shows "alcanzable_t p \<lparr>vent = (actualizar ^^ k) w, ahora = real k * p,
                         prox_fotograma = Some (real (Suc k) * p),
                         plazo_fin = Some (retardo_fin (anim_frames a))\<rparr>"
  using k
proof (induction k)
  case 0
  then show ?case using s0 by simp
next
  case (Suc k)
  let ?R = "retardo_fin (anim_frames a)"
  have lt: "real (Suc k) < real (anim_frames a)"
  proof -
    have "real (Suc k) * 10 \<le> real (Suc k) * p" using p by (intro mult_left_mono) auto
    then show ?thesis using Suc.prems by (simp add: retardo_fin_def)
  qed
  have "real k * p \<le> real (Suc k) * p" using p by (intro mult_right_mono) auto
  then have IH: "alcanzable_t p \<lparr>vent = (actualizar ^^ k) w, ahora = real k * p,
                         prox_fotograma = Some (real (Suc k) * p), plazo_fin = Some ?R\<rparr>"
    using Suc by simp
  have ak: "ani ((actualizar ^^ k) w) = Some (a\<lparr>fotograma := k\<rparr>)"
    using actualizar_pasos [OF w(1), of k] w(2) lt by simp
  have ak1: "ani (actualizar ((actualizar ^^ k) w)) = Some (a\<lparr>fotograma := Suc k\<rparr>)"
    using actualizar_avanza [OF ak] lt by simp
  have "paso_t p \<lparr>vent = (actualizar ^^ k) w, ahora = real k * p,
                  prox_fotograma = Some (real (Suc k) * p), plazo_fin = Some ?R\<rparr>
                \<lparr>vent = (actualizar ^^ Suc k) w, ahora = real (Suc k) * p,
                 prox_fotograma = Some (real (Suc (Suc k)) * p), plazo_fin = Some ?R\<rparr>"
    using paso_t.fotograma_t [of "\<lparr>vent = (actualizar ^^ k) w, ahora = real k * p,
                  prox_fotograma = Some (real (Suc k) * p), plazo_fin = Some ?R\<rparr>"
                  "real (Suc k) * p" p] ak ak1 Suc.prems
    by (simp add: vence_antes_def algebra_simps)
  with IH show ?case by (rule alcanzable_t.sigue_t)
qed

text \<open>The first click on the default window at time 0 arms the frame timer at \<open>p\<close> and
  the \<open>after\<close> timer at 3000 ms.\<close>

lemma pulsar_inicial_t:
  "paso_t p reloj_inicial \<lparr>vent = primer_salto, ahora = 0, prox_fotograma = Some p,
                           plazo_fin = Some (retardo_fin 300)\<rparr>"
proof -
  obtain tr where tr: "calcular_trayectoria 25 22.8 (-1) 20 = Inr tr"
    using lanzamiento_inicial by blast
  have n: "length (tray_t tr) = 300" using trayectoria_nth(3) [OF tr] by (simp add: num_muestras_def)
  have b0: "boton_activo ventana_inicial" by (simp add: ventana_inicial_def)
  have "paso_t p reloj_inicial (tras_pulsar p 0 primer_salto reloj_inicial)"
    by (rule paso_t.pulsar_t) (simp_all add: reloj_inicial_def no_vencido_def b0 simular_salto_inicial)
  moreover have "tras_pulsar p 0 primer_salto reloj_inicial =
                 \<lparr>vent = primer_salto, ahora = 0, prox_fotograma = Some p,
                  plazo_fin = Some (retardo_fin 300)\<rparr>"
    using lanzar_trayectoria(2,3) [OF tr] n by (simp add: tras_pulsar_def)
  ultimately show ?thesis by simp
qed

lemma lento_relanza:
  assumes p: "10 \<le> p"
  shows "\<exists>s. alcanzable_t p s \<and> ani (vent s) \<noteq> None \<and> boton_activo (vent s)"
proof -
  obtain tr where tr: "calcular_trayectoria 25 22.8 (-1) 20 = Inr tr"
    using lanzamiento_inicial by blast
  define a where "a = \<lparr>anim_x = tray_x tr, anim_y = tray_y tr,
                       anim_frames = length (tray_t tr), fotograma = 0\<rparr>"
  let ?R = "retardo_fin (anim_frames a)"
  have n: "anim_frames a = 300"
    using trayectoria_nth(3) [OF tr] by (simp add: a_def num_muestras_def)
  have ani1: "ani primer_salto = Some a" using lanzar_trayectoria(3) [OF tr] by (simp add: a_def)
  have fin1: "fin_pendiente primer_salto" using lanzar_trayectoria(2) [OF tr] by simp
  have s1: "alcanzable_t p \<lparr>vent = primer_salto, ahora = 0, prox_fotograma = Some p,
                                plazo_fin = Some ?R\<rparr>"
    using alcanzable_t.sigue_t [OF alcanzable_t.inicio_t pulsar_inicial_t] by (simp add: n)
  define K where "K = (LEAST k. ?R \<le> real (Suc k) * p)"
  have ex: "\<exists>k. ?R \<le> real (Suc k) * p"
  proof
    have "real 301 * 10 \<le> real 301 * p" using p by (intro mult_left_mono) auto
    then show "?R \<le> real (Suc 300) * p" by (simp add: n retardo_fin_def)
  qed
  have K1: "?R \<le> real (Suc K) * p" unfolding K_def by (rule LeastI_ex [OF ex])
  have K0: "real K * p < ?R"
  proof (cases K)
    case 0
    then show ?thesis by (simp add: n retardo_fin_def)
  next
    case (Suc j)
    then have "j < K" by simp
    then have "\<not> ?R \<le> real (Suc j) * p" unfolding K_def by (rule not_less_Least)
    then show ?thesis using Suc by simp
  qed
  have Kn: "K < anim_frames a"
  proof -
    have "real K * 10 \<le> real K * p" using p by (intro mult_left_mono) auto
    then show ?thesis using K0 by (simp add: retardo_fin_def)
  qed
  let ?s = "\<lparr>vent = (actualizar ^^ K) primer_salto, ahora = real K * p,
             prox_fotograma = Some (real (Suc K) * p), plazo_fin = Some ?R\<rparr>"
  have sK: "alcanzable_t p ?s"
    using lento_fotogramas [OF p ani1 _ s1 K0] by (simp add: a_def)
  let ?f = "?s\<lparr>vent := on_animation_end (vent ?s), ahora := ?R, plazo_fin := None\<rparr>"
  have "paso_t p ?s ?f"
    by (rule paso_t.temporizador_t) (use fin1 K1 in \<open>simp_all add: no_vencido_def\<close>)
  then have "alcanzable_t p ?f" by (rule alcanzable_t.sigue_t [OF sK])
  moreover have "ani ((actualizar ^^ K) primer_salto) = Some (a\<lparr>fotograma := K\<rparr>)"
    using actualizar_pasos [OF ani1, of K] Kn by (simp add: a_def)
  then have "ani (vent ?f) \<noteq> None" by (simp add: on_animation_end_def)
  moreover have "boton_activo (vent ?f)" by (simp add: on_animation_end_def)
  ultimately show ?thesis by blast
qed

subsection \<open>Time never goes backwards\<close>

lemma reloj_no_vencido:
  assumes "0 \<le> p" and "alcanzable_t p s"
  shows "no_vencido (ahora s) (prox_fotograma s) \<and> no_vencido (ahora s) (plazo_fin s)"
  using assms(2)
proof (induction rule: alcanzable_t.induct)
  case inicio_t
  then show ?case by (simp add: reloj_inicial_def no_vencido_def)
next
  case (sigue_t s s')
  from sigue_t.hyps(2) sigue_t.IH show ?case
  proof (induction rule: paso_t.induct)
    case (pulsar_t s t w')
    then show ?case using assms(1)
      by (auto simp: tras_pulsar_def no_vencido_def retardo_fin_def split: option.split)
  qed (use assms(1) in \<open>auto simp: no_vencido_def vence_antes_def split: option.splits\<close>)
qed

lemma paso_t_avanza:
  "paso_t p s s' \<Longrightarrow> no_vencido (ahora s) (prox_fotograma s) \<Longrightarrow>
   no_vencido (ahora s) (plazo_fin s) \<Longrightarrow> ahora s \<le> ahora s'"
  by (induction rule: paso_t.induct)
     (auto simp: no_vencido_def tras_pulsar_def split: option.splits)

subsection \<open>A running animation ends\<close>

lemma ani_actualizar_fin [simp]: "ani (actualizar (on_animation_end w)) = ani (actualizar w)"
  by (simp add: actualizar_def on_animation_end_def Let_def split: option.split)

text \<open>The next frame can always be drawn: at once, or right after the \<open>after\<close> timer
  when that is due first.\<close>

lemma fotograma_alcanzable:
  assumes s: "alcanzable_t p s" and a: "ani (vent s) = Some a"
  shows "\<exists>s'. (paso_t p)\<^sup>*\<^sup>* s s' \<and> alcanzable_t p s' \<and> ani (vent s') = ani (actualizar (vent s))"
proof -
  have inv: "inv_t p s" using alcanzable_t_inv [OF s] by simp
  then obtain d where d: "prox_fotograma s = Some d" using a by (cases "prox_fotograma s") (auto simp: inv_t_def)
  let ?f = "\<lambda>s. \<lparr>vent = actualizar (vent s), ahora = d,
                  prox_fotograma = (if ani (actualizar (vent s)) = None then None else Some (d + p)),
                  plazo_fin = plazo_fin s\<rparr>"
  show ?thesis
  proof (cases "vence_antes d (plazo_fin s)")
    case True
    then have "paso_t p s (?f s)" using a d by (intro paso_t.fotograma_t) auto
    then show ?thesis using s by (intro exI [of _ "?f s"]) (auto intro: alcanzable_t.sigue_t)
  next
    case False
    then obtain e where e: "plazo_fin s = Some e" "e \<le> d"
      by (cases "plazo_fin s") (auto simp: vence_antes_def)
    have fin: "fin_pendiente (vent s)" using inv e(1) by (simp add: inv_t_def)
    let ?t = "s\<lparr>vent := on_animation_end (vent s), ahora := e, plazo_fin := None\<rparr>"
    have t: "paso_t p s ?t"
      using fin e by (intro paso_t.temporizador_t) (simp_all add: d no_vencido_def)
    have "paso_t p ?t (?f ?t)"
      using a d by (intro paso_t.fotograma_t) (simp_all add: vence_antes_def on_animation_end_def)
    moreover have "alcanzable_t p ?t" using s t by (rule alcanzable_t.sigue_t)
    ultimately show ?thesis using t
      by (intro exI [of _ "?f ?t"]) (auto intro: alcanzable_t.sigue_t)
  qed
qed

lemma animacion_acaba_t:
  assumes "alcanzable_t p s" and "ani (vent s) = Some a" and "anim_frames a - fotograma a = k"
  shows "\<exists>s'. (paso_t p)\<^sup>*\<^sup>* s s' \<and> alcanzable_t p s' \<and> ani (vent s') = None"
  using assms
proof (induction k arbitrary: s a)
  case 0
  have "fotograma a < anim_frames a"
    using alcanzable_t_inv [OF 0(1)] 0(2) by (simp add: inv_ventana_def)
  with 0(3) show ?case by simp
next
  case (Suc k)
  obtain s1 where s1: "(paso_t p)\<^sup>*\<^sup>* s s1" "alcanzable_t p s1"
    "ani (vent s1) = ani (actualizar (vent s))"
    using fotograma_alcanzable [OF Suc.prems(1,2)] by blast
  show ?case
  proof (cases "Suc (fotograma a) < anim_frames a")
    case True
    then have "ani (vent s1) = Some (a\<lparr>fotograma := Suc (fotograma a)\<rparr>)"
      using s1(3) actualizar_avanza [OF Suc.prems(2)] by simp
    moreover have "anim_frames a - Suc (fotograma a) = k" using Suc.prems(3) by simp
    ultimately obtain s' where "(paso_t p)\<^sup>*\<^sup>* s1 s'" "alcanzable_t p s'" "ani (vent s') = None"
      using Suc.IH [OF s1(2)] by fastforce
    then show ?thesis using s1(1) by (meson rtranclp_trans)
  next
    case False
    then have "ani (vent s1) = None"
      using s1(3) Suc.prems(2) by (simp add: actualizar_def Let_def)
    then show ?thesis using s1 by blast
  qed
qed

lemma boton_vuelve_t:
  assumes "alcanzable_t p s" and "ani (vent s) = None"
  shows "\<exists>s'. (paso_t p)\<^sup>*\<^sup>* s s' \<and> alcanzable_t p s' \<and> ani (vent s') = None \<and> boton_activo (vent s')"
proof (cases "fin_pendiente (vent s)")
  case False
  then show ?thesis
    using assms alcanzable_t_inv [OF assms(1)] by (auto simp: inv_ventana_def)
next
  case True
  have inv: "inv_t p s" using alcanzable_t_inv [OF assms(1)] by simp
  then obtain e where e: "plazo_fin s = Some e" using True by (cases "plazo_fin s") (auto simp: inv_t_def)
  have pr: "prox_fotograma s = None" using inv assms(2) by (simp add: inv_t_def)
  let ?t = "s\<lparr>vent := on_animation_end (vent s), ahora := e, plazo_fin := None\<rparr>"
  have t: "paso_t p s ?t" using True e pr by (intro paso_t.temporizador_t) (simp_all add: no_vencido_def)
  then show ?thesis using assms
    by (intro exI [of _ ?t]) (auto simp: on_animation_end_def intro: alcanzable_t.sigue_t)
qed

subsection \<open>Properties of the timed event loop\<close>







end

