(* ===== verification/Spec2Isabelle.thy ===== *)
theory Spec2Isabelle
  imports Tiempo
begin

text \<open>
  \<^bold>\<open>A verification development of the ski-jump simulator \<^verbatim>\<open>src/sky.py\<close>.\<close>

  \<^bold>\<open>The program.\<close> \<^verbatim>\<open>src/sky.py\<close> is one Tk window. Its button calls
  \<open>simular_salto\<close> (lines 26--126), which (1) disables the button, (2) reads four text
  fields with \<open>float()\<close> (speed \<open>v0\<close>, angle, ramp slope negated into \<open>m\<close>, height
  \<open>h\<close>), (3) computes the landing time \<open>2 * (v0y - m * v0x) / g\<close> in closed form and
  stops with a message when it is not positive, (4) samples 300 positions of the flight
  with \<open>np.linspace\<close>, (5) sweeps 200 angles from 1 to 80 degrees for the one that
  lands farthest, (6) sets the plot limits from the sweep and the trajectory and draws the
  ramp, (7) starts a \<open>FuncAnimation\<close> of 300 frames (\<open>actualizar\<close>) and a Tk
  timer that re-enables the button after 3000 ms (\<open>on_animation_end\<close>), and (8) writes
  the distance and the best angle in a label. The engine (3--4) feeds the sweep (5) only
  through the shared closed form; both feed the limits (6); the window (1, 2, 7, 8) calls
  all three once per click and then runs the animation and the timer as events.

  \<^bold>\<open>The theories, in import order.\<close>
  \<^item> \<open>Prelude\<close>: \<open>numpy.linspace\<close> (\<open>linspace\<close>) and its lemmas (length,
    elements, ends, order, range); the running maximum \<open>fold max\<close> (bounds, membership,
    scaling); sine plus cosine (at most \<open>sqrt 2\<close>, equal to it only where
    \<open>sin x = cos x\<close>); the collection \<open>sky_defs\<close> of definitions unfolded to
    evaluate the model at a concrete input.
  \<^item> \<open>Engine\<close>, the trajectory engine (lines 41--65, and the ramp line of line 98):
    \<open>g\<close>, \<open>radians\<close>, \<open>vel_x\<close>/\<open>vel_y\<close>, \<open>tiempo_aterrizaje\<close>,
    \<open>pos_x\<close>/\<open>pos_y\<close>, \<open>pista\<close>, the error type \<open>salto_error\<close>, the record
    \<open>trayectoria\<close> of the arrays \<open>t\<close>, \<open>x\<close>, \<open>y\<close>, and
    \<open>calcular_trayectoria\<close>, which returns \<open>Inl SinInterseccion\<close> on the early return
    of line 53. Its key identity \<open>altura_sobre_pista\<close>: the height above the ramp is
    \<open>g/2 * t * (t_land - t)\<close>. It refines the specification \<open>trayectoria_spec\<close> (landing time
    as the unique positive root, C3). Claims C1--C3, C5, C22--C24, C32--C34.
  \<^item> \<open>Search\<close>, the best-angle sweep (lines 67--79): the state record \<open>busqueda\<close>
    \<open>(mejor_dist, mejor_ang)\<close>, the loop body \<open>paso_busqueda\<close> (with \<open>valido\<close>,
    the test \<open>t_at > 0\<close>, and \<open>alcance\<close>, the distance \<open>x_test\<close>), the loop
    \<open>recorrer\<close> and \<open>mejor_angulo\<close> over \<open>angulos_prueba\<close>. The reference
    \<open>busqueda_spec\<close> (maximum over valid angles, first angle reaching it) is the abstract
    specification the loop refines (C4). Its helper \<open>alcance_cota\<close> bounds every landing
    distance by \<open>2 v0\<^sup>2 (1 + |m|) / g\<close>. Claims C4, C8, C11, C25, C26, C35, C37.
  \<^item> \<open>Layout\<close>, the plot set-up (lines 81--98): \<open>calcular_limites\<close> and
    \<open>dibujar_pista\<close>. Claims C27, C28.
  \<^item> \<open>Entrada\<close>, the text interface: \<open>float_py\<close>, CPython's \<open>float()\<close> on a
    string (underscore pass \<open>quitar_guiones\<close>, whitespace strip \<open>recortar\<close>,
    sign, the words \<open>inf\<close>/\<open>infinity\<close>/\<open>nan\<close> in any case, decimal literal
    \<open>leer_decimal\<close> with point and exponent, overflow to infinity at \<open>desborde\<close>),
    returning a \<open>flotante\<close> (finite real, infinity or NaN) or \<open>None\<close> for
    \<open>ValueError\<close>; and \<open>formato_2f\<close>, the format spec \<open>:.2f\<close> of the label
    (line 125), rounding half to even (\<open>redondeo_par\<close>). The underscore pass is proved
    equal to the rule of PEP 515 (\<open>guiones_validos\<close>), and printing then parsing is a
    round trip up to 0.005; a text with no digit is never read as a finite
    value. Claims C9, C19--C21, C40.
  \<^item> \<open>Shell\<close>, the window as a state machine: the record \<open>ventana\<close> (entry
    texts, button state, label, canvas \<open>lienzo\<close>, running animation
    \<open>animacion\<close>, pending timer), the handlers \<open>simular_salto\<close> (reading the
    fields with \<open>float_py\<close> in the order of the code) and \<open>lanzar\<close> (the launch on
    the values read),
    \<open>actualizar\<close>, \<open>on_animation_end\<close> and \<open>editar\<close>, the event loop as the
    step relation \<open>paso\<close> (frames and the timer interleave in any order) and the
    reachable states \<open>alcanzable\<close>. The invariant \<open>inv_ventana\<close> is proved for
    every reachable state by rule induction, one lemma per handler. The label's numbers are
    shown to read back through \<open>float()\<close> (C14), composing the shell with
    \<open>Entrada\<close>, \<open>Engine\<close> and \<open>Search\<close>. Claims C6, C7, C14, C15, C17, C18, C30,
    C31, C36, C38.
  \<^item> \<open>Tiempo\<close>, the event loop with time: the record \<open>reloj\<close> adds the clock and
    the deadlines of the animation's frame timer (period \<open>p\<close>, a parameter: matplotlib's
    1 ms interval plus the time to draw a frame) and of the \<open>after(len(t) * 10)\<close>
    timer; \<open>paso_t\<close> fires due timers in deadline order, the \<open>after\<close> timer first on
    a tie, and lets the user act before the next deadline. It refines \<open>paso\<close> (C16),
    and the timed invariant \<open>inv_t\<close> (both deadlines come from the same launch time)
    decides the spec's promise on the button exactly: it holds in every run iff
    \<open>p < 10\<close> ms (C10). From every reachable state the timers alone end a running
    animation and re-enable the button (C39).
  \<^item> this theory: the properties that span the engine, the sweep and the limits: the
    spec's default scenario (C12), and two places where the spec promises more than the
    code does (C13, C29). On the ramp of slope -1 the landing distance is
    \<open>v0\<^sup>2/g * (1 + sin 2\<theta> + cos 2\<theta>)\<close>, largest at 22.5 degrees, which no swept
    angle \<open>1 + 79 i / 199\<close> equals (a parity argument on \<open>158 i = 8557 + 35820 k\<close>).

  \<^bold>\<open>Bounds and sizes.\<close> The model keeps the program's constants: 300 samples
  (\<open>num_muestras\<close>), 200 swept angles from 1 to 80 (\<open>angulos_prueba\<close>), 400 ramp
  points, \<open>g = 9.81\<close>, the 20 and 10 margins of the limits. No loop of the program
  can fail to terminate: the sweep is structural recursion over a finite list, and the
  animation is a finite number of frame events, so no fuel is needed. The parser's
  recursions (\<open>quitar_guiones\<close>, \<open>digitos_nat\<close>) are structural or on
  \<open>n div 10\<close>. The \<open>:.2f\<close> round trip is stated for magnitudes up to
  \<open>10\<^sup>3\<^sup>0\<^sup>0\<close>, safely below the overflow threshold \<open>desborde\<close>
  (about \<open>1.8 10\<^sup>3\<^sup>0\<^sup>8\<close>); for the label this holds whenever
  \<open>2 v0\<^sup>2 (1 + |m|) / g \<le> 10\<^sup>3\<^sup>0\<^sup>0\<close>, the bound \<open>alcance_cota\<close> puts
  on every landing distance. The timed model keeps the after delay \<open>len(t) * 10\<close>
  and takes the frame period as a parameter.

  \<^bold>\<open>What is not modelled.\<close> Floating point: every finite float is a
  \<^typ>\<open>real\<close>, so rounding is outside the model, and facts such as "the vertical jump
  lands at \<open>x = 0\<close>" (C33) hold exactly here but only approximately in the program
  (\<open>cos(radians(90))\<close> is about \<open>6e-17\<close>). \<open>float()\<close> itself is modelled,
  including the infinities and NaN it returns for \<open>'inf'\<close>, \<open>'nan'\<close> and
  overflowing literals (C19), but the IEEE arithmetic of numpy and matplotlib on them is
  not: \<open>simular_salto\<close> returns \<open>None\<close> for a click whose fields read as
  non-finite values, and the event loop \<open>paso\<close> takes no such click. Strings are lists
  of 8-bit characters (the code points below 256). The pixels (matplotlib artists,
  images, colours, titles), the fixed text and emoji of the label, and the Tk layout
  (lines 1--9, 129--171) are not modelled; the canvas is the state the drawing calls
  set. Time appears only in \<open>Tiempo\<close>, with the frame period as a parameter: the real
  draw time of a frame depends on the machine, so the development states the threshold
  instead of a verdict. There, a new launch replaces the running animation; the frames
  the old \<open>FuncAnimation\<close> may still draw only touch artists that \<open>ax.clear()\<close>
  removed.

  \<^bold>\<open>Plan for the next sittings.\<close> The IEEE behaviour of the launch on non-finite
  inputs (\<open>inf\<close>, \<open>nan\<close>), which needs a float model of numpy and matplotlib;
  a bound on the time at which the timed loop ends an animation.
\<close>

section \<open>Properties that span the engine, the sweep and the limits\<close>

subsection \<open>The ramp of slope -1\<close>

text \<open>
  On the spec's default ramp (pendiente 1, so \<open>m = -1\<close>) the landing distance is
  \<open>v0\<^sup>2/g * (1 + sin x + cos x)\<close> with \<open>x\<close> twice the angle in radians: it is
  largest at 22.5 degrees, which is not one of the 200 swept angles
  \<open>1 + 79 i / 199\<close>.
\<close>

lemma alcance_pendiente_menos1:
  "alcance v0 (-1) a = v0\<^sup>2 / g * (1 + sin (2 * radians a) + cos (2 * radians a))"
proof -
  let ?r = "radians a"
  have "v0\<^sup>2 / g * (1 + sin (2 * ?r) + cos (2 * ?r)) =
        v0\<^sup>2 / g * (2 * sin ?r * cos ?r + 2 * (cos ?r)\<^sup>2)"
    by (simp add: sin_double cos_double_cos)
  also have "\<dots> = alcance v0 (-1) a"
    by (simp add: alcance_def Let_def pos_x_def vel_x_def vel_y_def tiempo_aterrizaje_def
        power2_eq_square field_simps)
  finally show ?thesis ..
qed

lemma angulos_prueba_nth:
  assumes "a \<in> set angulos_prueba"
  shows "\<exists>i<200. a = 1 + real i * (79 / 199)"
proof -
  from assms obtain i where i: "i < 200" "a = linspace 1 80 200 ! i"
    by (auto simp: angulos_prueba_def in_set_conv_nth)
  then show ?thesis by (auto simp: linspace_nth)
qed

lemma angulos_prueba_no_optimo:
  assumes "a \<in> set angulos_prueba"
  shows "a \<noteq> 45 / 2 + 90 * of_int k"
proof
  assume eq: "a = 45 / 2 + 90 * of_int k"
  obtain i where "a = 1 + real i * (79 / 199)" using angulos_prueba_nth [OF assms] by blast
  with eq have "398 * (1 + real i * (79 / 199)) = 398 * (45 / 2 + 90 * of_int k)" by simp
  then have "398 + 158 * real i = 8955 + 35820 * (of_int k :: real)"
    by (simp add: algebra_simps)
  then have "(of_int (158 * int i) :: real) = of_int (8557 + 35820 * k)" by simp
  then have int_eq: "158 * int i = 8557 + 35820 * k" by (rule of_int_eq_iff [THEN iffD1])
  have "even (158 * int i)" by simp
  moreover have "odd (8557 + 35820 * k)" by simp
  ultimately show False using int_eq by simp
qed

lemma angulos_prueba_sin_cos:
  assumes "a \<in> set angulos_prueba"
  shows "sin (2 * radians a) \<noteq> cos (2 * radians a)"
proof
  assume "sin (2 * radians a) = cos (2 * radians a)"
  then obtain k :: int where k: "2 * radians a = pi / 4 + of_int k * pi"
    using sin_igual_cos by blast
  have "a = (2 * radians a) * 90 / pi" by (simp add: radians_def)
  also have "\<dots> = (pi / 4 + of_int k * pi) * 90 / pi" by (simp only: k)
  also have "\<dots> = 45 / 2 + 90 * of_int k" by (simp add: field_simps)
  finally have "a = 45 / 2 + 90 * of_int k" .
  with angulos_prueba_no_optimo [OF assms] show False by blast
qed

lemma alcance_optimo_menos1: "alcance v0 (-1) (45 / 2) = v0\<^sup>2 / g * (1 + sqrt 2)"
proof -
  have r: "2 * radians (45 / 2) = pi / 4" by (simp add: radians_def)
  show ?thesis unfolding alcance_pendiente_menos1 r by (simp add: sin_45 cos_45)
qed

lemma alcance_grid_menor:
  assumes "a \<in> set angulos_prueba" and "v0 \<noteq> 0"
  shows "alcance v0 (-1) a < alcance v0 (-1) (45 / 2)"
proof -
  have r: "2 * radians (45 / 2) = pi / 4" by (simp add: radians_def)
  have "sin (2 * radians a) + cos (2 * radians a) < sqrt 2"
    using angulos_prueba_sin_cos [OF assms(1)] by (rule sin_mas_cos_menor)
  then have S: "1 + sin (2 * radians a) + cos (2 * radians a) <
                1 + sin (2 * radians (45 / 2)) + cos (2 * radians (45 / 2))"
    unfolding r sin_mas_cos_45 [symmetric] by simp
  have "0 < v0\<^sup>2 / g" using assms(2) by simp
  then show ?thesis
    unfolding alcance_pendiente_menos1 by (rule mult_strict_left_mono [OF S])
qed

lemma mejor_dist_menor_optimo:
  assumes "v0 \<noteq> 0"
  shows "mejor_dist (mejor_angulo v0 (-1)) < alcance v0 (-1) (45 / 2)"
proof -
  let ?D = "mejor_dist (mejor_angulo v0 (-1))"
  have pos: "0 < alcance v0 (-1) (45 / 2)"
    using assms by (simp add: alcance_optimo_menos1 add_pos_nonneg)
  have "?D = fold max (map (alcance v0 (-1)) (filter (valido v0 (-1)) angulos_prueba)) 0"
    by (simp add: mejor_angulo_def recorrer_dist)
  then have "?D \<in> insert 0 (set (map (alcance v0 (-1)) (filter (valido v0 (-1)) angulos_prueba)))"
    by (simp only: fold_max_mem)
  then consider "?D = 0" | a where "a \<in> set angulos_prueba" "?D = alcance v0 (-1) a"
    by auto
  then show ?thesis
  proof cases
    case 1
    with pos show ?thesis by simp
  next
    case 2
    with alcance_grid_menor [OF 2(1) assms] show ?thesis by simp
  qed
qed

lemma alcance_pendiente_menos1_seno:
  "alcance v0 (-1) a = v0\<^sup>2 / g * (1 + sqrt 2 * sin (2 * radians a + pi / 4))"
  unfolding alcance_pendiente_menos1 sin_mas_cos_desplazado [symmetric] by (simp add: add.assoc)

subsection \<open>The spec's default scenario\<close>

text \<open>
  The default inputs (speed 25, angle 22.8, pendiente 1, height 20). The swept angle
  \<open>4465/199\<close> (index 54, about 22.44 degrees) is closer to the optimum 22.5 than
  22.8 is, so the sweep's best distance is at least the chosen angle's.
\<close>

lemma angulo_54: "(4465 / 199 :: real) \<in> set angulos_prueba"
proof -
  have eq: "angulos_prueba ! 54 = 4465 / 199"
    by (simp add: angulos_prueba_def linspace_nth)
  have "54 < length angulos_prueba" by (simp add: angulos_prueba_def)
  from nth_mem [OF this] show ?thesis by (simp only: eq)
qed

lemma alcance_22_8_menor:
  "alcance 25 (-1) 22.8 < alcance 25 (-1) (4465 / 199)"
proof -
  have e1: "2 * radians 22.8 + pi / 4 = pi - 149 * pi / 300"
    by (simp add: radians_def field_simps)
  have e2: "2 * radians (4465 / 199) + pi / 4 = 3577 * pi / 7164"
    by (simp add: radians_def field_simps)
  have "sin (149 * pi / 300) < sin (3577 * pi / 7164)"
    by (rule sin_monotone_2pi) (simp_all add: field_simps)
  then have "sin (2 * radians 22.8 + pi / 4) < sin (2 * radians (4465 / 199) + pi / 4)"
    unfolding e1 e2 sin_pi_minus .
  then have "1 + sqrt 2 * sin (2 * radians 22.8 + pi / 4) <
             1 + sqrt 2 * sin (2 * radians (4465 / 199) + pi / 4)"
    by simp
  then have "25\<^sup>2 / g * (1 + sqrt 2 * sin (2 * radians 22.8 + pi / 4)) <
             25\<^sup>2 / g * (1 + sqrt 2 * sin (2 * radians (4465 / 199) + pi / 4))"
    by (rule mult_strict_left_mono) simp
  then show ?thesis unfolding alcance_pendiente_menos1_seno .
qed

lemma alcance_22_8_cota: "100 < alcance 25 (-1) 22.8"
proof -
  have r: "0 < 2 * radians 22.8" "2 * radians 22.8 < pi / 2"
    by (simp_all add: radians_def field_simps)
  have "1 < sin (2 * radians 22.8) + cos (2 * radians 22.8)"
    using r by (rule sin_mas_cos_mayor_1)
  then have "625 / g * 2 < 625 / g * (1 + sin (2 * radians 22.8) + cos (2 * radians 22.8))"
    by (intro mult_strict_left_mono) simp_all
  moreover have "100 < 625 / g * 2" by (simp add: g_def)
  ultimately show ?thesis by (simp add: alcance_pendiente_menos1)
qed

subsection \<open>Properties\<close>

text \<open>
  C12. The spec's end-to-end scenario holds: with the default inputs (speed 25, angle
  22.8, pendiente 1, height 20) the engine returns a trajectory with positive landing
  time, landing more than 100 m away; the sweep's best distance is at least the chosen
  angle's landing distance, and the best angle lies in [1, 80].
\<close>

theorem escenario_por_defecto:
  "\<exists>tr. calcular_trayectoria 25 22.8 (-1) 20 = Inr tr \<and> 0 < t_land tr \<and>
        100 < fst (punto_aterrizaje tr) \<and>
        fst (punto_aterrizaje tr) \<le> mejor_dist (mejor_angulo 25 (-1)) \<and>
        1 \<le> mejor_ang (mejor_angulo 25 (-1)) \<and> mejor_ang (mejor_angulo 25 (-1)) \<le> 80"
proof -
  have v: "valido 25 (-1) 22.8" using valido_rampa_descendente [of 25 "-1" "22.8"] by simp
  then obtain tr where tr: "calcular_trayectoria 25 22.8 (-1) 20 = Inr tr"
    using trayectoria_existe_valido by blast
  have x: "fst (punto_aterrizaje tr) = alcance 25 (-1) 22.8"
    using trayectoria_alcance [OF tr] by simp
  have v54: "valido 25 (-1) (4465 / 199)"
    using valido_rampa_descendente [of 25 "-1" "4465 / 199"] by simp
  have "alcance 25 (-1) 22.8 \<le> mejor_dist (mejor_angulo 25 (-1))"
    using alcance_22_8_menor mejor_dist_cota [OF angulo_54 v54] by simp
  moreover have "0 < mejor_dist (mejor_angulo 25 (-1))"
    using alcance_22_8_cota calculation by simp
  then have "1 \<le> mejor_ang (mejor_angulo 25 (-1)) \<and> mejor_ang (mejor_angulo 25 (-1)) \<le> 80"
    using mejor_angulo_candidato angulos_prueba_rango by blast
  ultimately show ?thesis
    using tr x alcance_22_8_cota trayectoria_nth(1) [OF tr] by auto
qed

text \<open>
  C13. The spec's reading of that scenario, "the optimal angle is at least as good as the
  arbitrary chosen angle" (best distance at least the landing distance), does not hold
  in general: at 22.5 degrees, the exact optimum for pendiente 1, which the 200-point
  sweep misses, the chosen angle lands strictly farther than the reported best.
\<close>

theorem eleccion_supera_mejor:
  "\<exists>tr. calcular_trayectoria 25 (45 / 2) (-1) 20 = Inr tr \<and>
        mejor_dist (mejor_angulo 25 (-1)) < fst (punto_aterrizaje tr)"
proof -
  have "valido 25 (-1) (45 / 2)" using valido_rampa_descendente [of 25 "-1" "45 / 2"] by simp
  then obtain tr where tr: "calcular_trayectoria 25 (45 / 2) (-1) 20 = Inr tr"
    using trayectoria_existe_valido by blast
  have "mejor_dist (mejor_angulo 25 (-1)) < fst (punto_aterrizaje tr)"
    using trayectoria_alcance [OF tr] mejor_dist_menor_optimo [of 25] by simp
  with tr show ?thesis by blast
qed

text \<open>
  C29. The horizontal axis of line 89 ends at \<open>mejor_dist + 20\<close>, so it need not contain
  the landing point the program draws at line 107: for a large enough speed, the jump at
  22.5 degrees onto the default ramp lands beyond the right edge of the plot.
\<close>

theorem aterrizaje_fuera_del_grafico:
  "\<exists>v0>0. \<exists>tr. calcular_trayectoria v0 (45 / 2) (-1) 20 = Inr tr \<and>
               xmax (calcular_limites (mejor_angulo v0 (-1)) tr 20) < fst (punto_aterrizaje tr)"
proof -
  define gap where "gap = alcance 1 (-1) (45 / 2) - mejor_dist (mejor_angulo 1 (-1))"
  have gap: "0 < gap" using mejor_dist_menor_optimo [of 1] by (simp add: gap_def)
  define c where "c = 1 + 20 / gap"
  have c: "1 \<le> c" "0 < c" using gap by (simp_all add: c_def add_pos_nonneg)
  have "c * gap = gap + 20" using gap by (simp add: c_def field_simps)
  moreover have "c * gap \<le> c\<^sup>2 * gap"
    using c gap by (simp add: power2_eq_square mult_le_cancel_right1 mult_right_mono)
  ultimately have big: "20 < c\<^sup>2 * gap" using gap by linarith
  have "valido c (-1) (45 / 2)" using valido_rampa_descendente [of c "-1" "45 / 2"] c by simp
  then obtain tr where tr: "calcular_trayectoria c (45 / 2) (-1) 20 = Inr tr"
    using trayectoria_existe_valido by blast
  have x: "fst (punto_aterrizaje tr) = c\<^sup>2 * alcance 1 (-1) (45 / 2)"
    using trayectoria_alcance [OF tr] alcance_escala [of c 1 "-1" "45 / 2"] by simp
  have d: "mejor_dist (mejor_angulo c (-1)) = c\<^sup>2 * mejor_dist (mejor_angulo 1 (-1))"
    using mejor_dist_escala [OF c(2), of 1 "-1"] by (simp add: escalar_def)
  have "xmax (calcular_limites (mejor_angulo c (-1)) tr 20) < fst (punto_aterrizaje tr)"
    using big by (simp add: calcular_limites_def Let_def x d gap_def algebra_simps)
  with tr c show ?thesis by blast
qed

end
